theory Spec2Isabelle
  imports Main
begin

section \<open>Strings and paths of the Go standard library\<close>

text \<open>
  Go strings are byte sequences; they are modelled as \<^typ>\<open>string\<close>. The library
  functions below are the ones the embedded code calls.
\<close>

definition HasPrefix :: "string \<Rightarrow> string \<Rightarrow> bool" where
  "HasPrefix s pre = (take (length pre) s = pre)"

definition TrimPrefix :: "string \<Rightarrow> string \<Rightarrow> string" where
  "TrimPrefix s pre = (if HasPrefix s pre then drop (length pre) s else s)"

text \<open>\<open>strings.Split(s, sep)\<close> for a one-byte separator: the fields between separators,
  empty fields included; the empty string gives one empty field.\<close>

fun Split :: "string \<Rightarrow> char \<Rightarrow> string list" where
  "Split [] sep = [[]]"
| "Split (c # cs) sep =
     (if c = sep then [] # Split cs sep
      else (case Split cs sep of [] \<Rightarrow> [[c]] | f # fs \<Rightarrow> (c # f) # fs))"

text \<open>\<open>strings.Join(elems, sep)\<close>.\<close>

fun Join :: "string list \<Rightarrow> string \<Rightarrow> string" where
  "Join [] sep = []"
| "Join [e] sep = e"
| "Join (e # es) sep = e @ sep @ Join es sep"

text \<open>\<open>path.Clean\<close>: the shortest equivalent path. The path is cut at its slashes; empty
  elements and \<open>.\<close> are dropped; \<open>..\<close> removes the element before it, is dropped at the
  root of a rooted path, and is kept at the start of a path that is not rooted. The
  accumulator holds the elements kept so far, the last one first.\<close>

fun cleanElems :: "bool \<Rightarrow> string list \<Rightarrow> string list \<Rightarrow> string list" where
  "cleanElems rooted out [] = rev out"
| "cleanElems rooted out (e # es) =
     (if e = [] \<or> e = ''.'' then cleanElems rooted out es
      else if e = ''..'' then
        (case out of
           [] \<Rightarrow> if rooted then cleanElems rooted out es else cleanElems rooted [e] es
         | l # ls \<Rightarrow> if l = ''..'' then cleanElems rooted (e # out) es
                     else cleanElems rooted ls es)
      else cleanElems rooted (e # out) es)"

definition Clean :: "string \<Rightarrow> string" where
  "Clean p =
     (if p = [] then ''.''
      else let rooted = (hd p = CHR ''/'');
               out = Join (cleanElems rooted [] (Split p (CHR ''/''))) ''/''
           in if rooted then ''/'' @ out
              else if out = [] then ''.'' else out)"

text \<open>\<open>path.Join\<close>: the elements from the first non-empty one on, joined with slashes and
  cleaned; the empty string when every element is empty.\<close>

fun path_Join :: "string list \<Rightarrow> string" where
  "path_Join [] = []"
| "path_Join (e # es) = (if e = [] then path_Join es else Clean (Join (e # es) ''/''))"

definition HasSuffix :: "string \<Rightarrow> string \<Rightarrow> bool" where
  "HasSuffix s suf = (length suf \<le> length s \<and> drop (length s - length suf) s = suf)"

definition TrimSuffix :: "string \<Rightarrow> string \<Rightarrow> string" where
  "TrimSuffix s suf = (if HasSuffix s suf then take (length s - length suf) s else s)"

text \<open>\<open>path.Split\<close> cuts a path after its last slash into directory and file; \<open>path.Base\<close>
  is the last element of a path, trailing slashes removed: \<open>.\<close> for the empty path and \<open>/\<close>
  for a path of slashes only.\<close>

definition path_Split :: "string \<Rightarrow> string \<times> string" where
  "path_Split p =
     (let file = rev (takeWhile (\<lambda>c. c \<noteq> CHR ''/'') (rev p))
      in (take (length p - length file) p, file))"

definition path_Base :: "string \<Rightarrow> string" where
  "path_Base p =
     (if p = [] then ''.''
      else let stripped = rev (dropWhile (\<lambda>c. c = CHR ''/'') (rev p));
               elem = snd (path_Split stripped)
           in if elem = [] then ''/'' else elem)"

section \<open>The page collections and the reference index\<close>

text \<open>
  A \<open>*Page\<close> is an address. The package-level variable \<open>ambiguityFlag\<close> holds the address
  of one page object allocated for that purpose; every other page lives at another
  address. The nil pointer is \<^const>\<open>None\<close> of \<^typ>\<open>'a option\<close>.
\<close>

datatype page_ptr = AmbiguityFlagAddr | PageAddr nat

text \<open>The fields of \<open>Page\<close> that the embedded code reads. \<open>absoluteSourceRef\<close>, \<open>Lang\<close>,
  \<open>LogicalName\<close> and \<open>TranslationBaseName\<close> hold what the methods of these names return;
  \<open>site\<close> is the site \<open>s\<close> the page belongs to.\<close>

record Page =
  Kind :: string
  title :: string
  sections :: "string list"
  absoluteSourceRef :: string
  Lang :: string
  LogicalName :: string
  TranslationBaseName :: string
  site :: nat

type_synonym heap = "page_ptr \<Rightarrow> Page"

definition ambiguityFlag :: page_ptr where
  "ambiguityFlag = AmbiguityFlagAddr"

text \<open>The loaded index, \<open>map[string]interface{}\<close>, whose values are page pointers.\<close>

type_synonym index = "string \<rightharpoonup> page_ptr"

text \<open>The closure \<open>add\<close> of \<open>indexLoader\<close>; it updates the index in place, the model
  returns the updated index.\<close>

definition add :: "string \<Rightarrow> page_ptr \<Rightarrow> index \<Rightarrow> index" where
  "add ref p index =
     (case index ref of
        None \<Rightarrow> index(ref \<mapsto> p)
      | Some existing \<Rightarrow>
          if existing \<noteq> ambiguityFlag \<and> existing \<noteq> p then index(ref \<mapsto> ambiguityFlag)
          else index)"

text \<open>A sequence of insertions, in the order they are made.\<close>

fun addAll :: "(string \<times> page_ptr) list \<Rightarrow> index \<Rightarrow> index" where
  "addAll [] index = index"
| "addAll ((ref, p) # ins) index = addAll ins (add ref p index)"

text \<open>The errors of \<open>getFromCache\<close> and \<open>getPageNew\<close>, by the format string that builds
  their message:
  \<^item> \<open>page reference %q is ambiguous\<close>, with the reference;
  \<^item> \<open>failed to resolve page relative to page %q: %s\<close>, with a source reference and the
    error that is wrapped;
  \<^item> \<open>failed to resolve page: %s\<close>, with the error that is wrapped.\<close>

datatype error =
    AmbiguousRef string
  | ResolveRelative string error
  | ResolveFailed error

text \<open>\<open>c.pageIndex.Get(ref)\<close> on the loaded index gives the value, whether the key was
  found, and the loader's error; \<open>indexLoader\<close> returns \<open>index, nil\<close> on every path, so
  that error is nil.\<close>

definition pageIndex_Get :: "index \<Rightarrow> string \<Rightarrow> page_ptr option \<times> bool \<times> error option" where
  "pageIndex_Get index ref = (index ref, index ref \<noteq> None, None)"

definition getFromCache :: "index \<Rightarrow> string \<Rightarrow> page_ptr option \<times> error option" where
  "getFromCache index ref =
     (case pageIndex_Get index ref of
        (v, found, Some err) \<Rightarrow> (None, Some err)
      | (v, found, None) \<Rightarrow>
          if \<not> found then (None, None)
          else (case v of
                  None \<Rightarrow> (None, None)
                | Some p \<Rightarrow>
                    if p \<noteq> ambiguityFlag then (Some p, None)
                    else (None, Some (AmbiguousRef ref))))"

text \<open>\<open>getPageNew\<close>, cut at its early returns: each definition is the function from one
  lookup on, the last lookup first. The last lookup assigns its page to the variable
  \<open>context\<close>, so the test \<open>context != nil\<close> that follows reads the page just looked up.\<close>

definition getPageNew_last :: "heap \<Rightarrow> index \<Rightarrow> string \<Rightarrow> page_ptr option \<times> error option" where
  "getPageNew_last h index ref =
     (let ref' = TrimPrefix ref ''/'';
          (context, err) = getFromCache index ref'
      in case err of
           Some e \<Rightarrow>
             (case context of
                Some c \<Rightarrow> (None, Some (ResolveRelative (absoluteSourceRef (h c)) e))
              | None \<Rightarrow> (None, Some (ResolveFailed e)))
         | None \<Rightarrow> (context, None))"

definition getPageNew_implicit :: "heap \<Rightarrow> index \<Rightarrow> string \<Rightarrow> page_ptr option \<times> error option" where
  "getPageNew_implicit h index ref =
     (if \<not> HasPrefix ref ''/'' then
        (case getFromCache index (''/'' @ ref) of
           (Some p, None) \<Rightarrow> (Some p, None)
         | _ \<Rightarrow> getPageNew_last h index ref)
      else getPageNew_last h index ref)"

definition getPageNew_relative ::
  "heap \<Rightarrow> index \<Rightarrow> page_ptr option \<Rightarrow> string \<Rightarrow> page_ptr option \<times> error option" where
  "getPageNew_relative h index context ref =
     (case context of
        Some c \<Rightarrow>
          (let ppath = path_Join [''/'', Join (sections (h c)) ''/'', ref]
           in case getFromCache index ppath of
                (Some p, None) \<Rightarrow> (Some p, None)
              | _ \<Rightarrow> getPageNew_implicit h index ref)
      | None \<Rightarrow> getPageNew_implicit h index ref)"

definition getPageNew ::
  "heap \<Rightarrow> index \<Rightarrow> page_ptr option \<Rightarrow> string \<Rightarrow> page_ptr option \<times> error option" where
  "getPageNew h index context ref =
     (if HasPrefix ref ''/'' then
        (case getFromCache index ref of
           (Some p, None) \<Rightarrow> (Some p, None)
         | _ \<Rightarrow> getPageNew_relative h index context ref)
      else getPageNew_relative h index context ref)"

text \<open>The page collections: each collection is a slice of page pointers. \<open>KindPage\<close> is
  declared outside these sources; it is the kind \<open>page\<close> that the layout handler tests
  for.\<close>

record PageCollections =
  Pages :: "page_ptr list"
  AllPages :: "page_ptr list"
  indexPages :: "page_ptr list"
  RegularPages :: "page_ptr list"
  AllRegularPages :: "page_ptr list"
  rawAllPages :: "page_ptr list"
  headlessPages :: "page_ptr list"

definition KindPage :: string where
  "KindPage = ''page''"

definition findPagesByKindIn :: "heap \<Rightarrow> string \<Rightarrow> page_ptr list \<Rightarrow> page_ptr list" where
  "findPagesByKindIn h kind inPages = filter (\<lambda>p. Kind (h p) = kind) inPages"

definition findPagesByKindNotIn :: "heap \<Rightarrow> string \<Rightarrow> page_ptr list \<Rightarrow> page_ptr list" where
  "findPagesByKindNotIn h kind inPages = filter (\<lambda>p. Kind (h p) \<noteq> kind) inPages"

text \<open>\<open>indexLoader\<close>: the calls of \<open>add\<close> it makes for a page of the regular and headless
  collections and for a page of \<open>indexPages\<close>, in their order; \<open>s\<close> is the site of the first
  page of \<open>c.Pages\<close>, nil when there is none. The index is built from the empty map by these
  calls.\<close>

definition regularPageRefs :: "heap \<Rightarrow> nat option \<Rightarrow> page_ptr \<Rightarrow> (string \<times> page_ptr) list" where
  "regularPageRefs h s p =
     (let sourceRef = absoluteSourceRef (h p)
      in [(path_Join [''/'' @ Lang (h p), sourceRef], p)]
         @ (if s \<noteq> None \<and> Some (site (h p)) = s then
              (if sourceRef \<noteq> [] then [(sourceRef, p)] else [])
              @ [(LogicalName (h p), p)]
              @ (let translationBaseName = TranslationBaseName (h p);
                     dir = TrimSuffix (fst (path_Split sourceRef)) ''/''
                 in (if translationBaseName = ''index'' then [(dir, p), (path_Base dir, p)]
                     else [(translationBaseName, p)])
                    @ [(path_Join [dir, translationBaseName], p)])
            else []))"

definition indexPageRefs :: "heap \<Rightarrow> page_ptr \<Rightarrow> (string \<times> page_ptr) list" where
  "indexPageRefs h p =
     (let sourceRef = absoluteSourceRef (h p)
      in (if sourceRef \<noteq> [] then [(sourceRef, p)] else [])
         @ (let ref = path_Join (sections (h p)) in [(''/'' @ ref, p)]))"

definition indexLoader :: "heap \<Rightarrow> PageCollections \<Rightarrow> nat option \<Rightarrow> index" where
  "indexLoader h c s =
     addAll (concat (map (regularPageRefs h s) (AllRegularPages c @ headlessPages c))
             @ concat (map (indexPageRefs h) (indexPages c)))
       Map.empty"

text \<open>\<open>refreshPageCaches\<close> recomputes the three derived collections and sets \<open>pageIndex\<close> to
  the lazy cache of \<open>indexLoader\<close>; the model returns the collections and the index that the
  cache loads at the first lookup.\<close>

definition refreshPageCaches :: "heap \<Rightarrow> PageCollections \<Rightarrow> PageCollections \<times> index" where
  "refreshPageCaches h c =
     (let c1 = c\<lparr>indexPages := findPagesByKindNotIn h KindPage (Pages c),
                  RegularPages := findPagesByKindIn h KindPage (Pages c),
                  AllRegularPages := findPagesByKindIn h KindPage (AllPages c)\<rparr>;
          s = (if length (Pages c1) > 0 then Some (site (h (Pages c1 ! 0))) else None)
      in (c1, indexLoader h c1 s))"

text \<open>\<open>getPage\<close>, the old style lookup by sections.\<close>

definition getPage :: "heap \<Rightarrow> index \<Rightarrow> string list \<Rightarrow> page_ptr option" where
  "getPage h index sects = fst (getPageNew h index None (''/'' @ path_Join sects))"

text \<open>The same function with every call of \<open>getFromCache\<close> recorded: the log holds the
  references looked up so far, the oldest first.\<close>

definition getFromCache_log ::
  "index \<Rightarrow> string \<Rightarrow> string list \<Rightarrow> (page_ptr option \<times> error option) \<times> string list" where
  "getFromCache_log index ref log = (getFromCache index ref, log @ [ref])"

definition getPageNew_last_log ::
  "heap \<Rightarrow> index \<Rightarrow> string \<Rightarrow> string list \<Rightarrow> (page_ptr option \<times> error option) \<times> string list" where
  "getPageNew_last_log h index ref log =
     (let ref' = TrimPrefix ref ''/'';
          ((context, err), log') = getFromCache_log index ref' log
      in (case err of
            Some e \<Rightarrow>
              (case context of
                 Some c \<Rightarrow> (None, Some (ResolveRelative (absoluteSourceRef (h c)) e))
               | None \<Rightarrow> (None, Some (ResolveFailed e)))
          | None \<Rightarrow> (context, None), log'))"

definition getPageNew_implicit_log ::
  "heap \<Rightarrow> index \<Rightarrow> string \<Rightarrow> string list \<Rightarrow> (page_ptr option \<times> error option) \<times> string list" where
  "getPageNew_implicit_log h index ref log =
     (if \<not> HasPrefix ref ''/'' then
        (case getFromCache_log index (''/'' @ ref) log of
           ((Some p, None), log') \<Rightarrow> ((Some p, None), log')
         | (_, log') \<Rightarrow> getPageNew_last_log h index ref log')
      else getPageNew_last_log h index ref log)"

definition getPageNew_relative_log ::
  "heap \<Rightarrow> index \<Rightarrow> page_ptr option \<Rightarrow> string \<Rightarrow> string list
     \<Rightarrow> (page_ptr option \<times> error option) \<times> string list" where
  "getPageNew_relative_log h index context ref log =
     (case context of
        Some c \<Rightarrow>
          (let ppath = path_Join [''/'', Join (sections (h c)) ''/'', ref]
           in case getFromCache_log index ppath log of
                ((Some p, None), log') \<Rightarrow> ((Some p, None), log')
              | (_, log') \<Rightarrow> getPageNew_implicit_log h index ref log')
      | None \<Rightarrow> getPageNew_implicit_log h index ref log)"

definition getPageNew_log ::
  "heap \<Rightarrow> index \<Rightarrow> page_ptr option \<Rightarrow> string \<Rightarrow> string list
     \<Rightarrow> (page_ptr option \<times> error option) \<times> string list" where
  "getPageNew_log h index context ref log =
     (if HasPrefix ref ''/'' then
        (case getFromCache_log index ref log of
           ((Some p, None), log') \<Rightarrow> ((Some p, None), log')
         | (_, log') \<Rightarrow> getPageNew_relative_log h index context ref log')
      else getPageNew_relative_log h index context ref log)"

text \<open>The four lookups of the specification, in its order: the reference verbatim when it
  starts with a slash; with a context page, the join of the context's section path with
  the reference; the reference with a slash prepended when it does not start with one;
  the reference with a leading slash stripped.\<close>

definition lookupOrder :: "heap \<Rightarrow> page_ptr option \<Rightarrow> string \<Rightarrow> string list" where
  "lookupOrder h context ref =
     (if HasPrefix ref ''/'' then [ref] else [])
     @ (case context of
          Some c \<Rightarrow> [path_Join [''/'', Join (sections (h c)) ''/'', ref]]
        | None \<Rightarrow> [])
     @ (if \<not> HasPrefix ref ''/'' then [''/'' @ ref] else [])
     @ [TrimPrefix ref ''/'']"

text \<open>A lookup that yields a non-nil page without error.\<close>

definition isHit :: "index \<Rightarrow> string \<Rightarrow> bool" where
  "isHit index k = (case getFromCache index k of (Some p, None) \<Rightarrow> True | _ \<Rightarrow> False)"

text \<open>The references a search looks up when it walks a list of candidates and stops at the
  first hit.\<close>

definition upToFirstHit :: "index \<Rightarrow> string list \<Rightarrow> string list" where
  "upToFirstHit index ks =
     (case find (isHit index) ks of
        Some k \<Rightarrow> takeWhile (\<lambda>k. \<not> isHit index k) ks @ [k]
      | None \<Rightarrow> ks)"

text \<open>A page and an index for the examples.\<close>

definition examplePage :: Page where
  "examplePage = \<lparr>Kind = ''page'', title = ''Foo'', sections = [''blog'', ''foo''],
     absoluteSourceRef = ''/blog/foo/index.md'', Lang = ''en'', LogicalName = ''index.md'',
     TranslationBaseName = ''index'', site = 0\<rparr>"

definition exampleIndex :: index where
  "exampleIndex = [''/bar.md'' \<mapsto> PageAddr 2, ''/blog/foo/bar.md'' \<mapsto> PageAddr 3,
     ''bar.md'' \<mapsto> AmbiguityFlagAddr]"

section \<open>The layout handler\<close>

text \<open>\<open>strings.ToLower\<close>, \<open>strings.Fields\<close> and the replacer of \<open>strings.NewReplacer\<close>, on
  ASCII text: letters \<open>A\<close> to \<open>Z\<close> are lower-cased and the white space is the six ASCII
  space characters; bytes of other characters are left as they are.\<close>

definition toLowerByte :: "char \<Rightarrow> char" where
  "toLowerByte c =
     (case map_of (zip ''ABCDEFGHIJKLMNOPQRSTUVWXYZ'' ''abcdefghijklmnopqrstuvwxyz'') c of
        Some l \<Rightarrow> l
      | None \<Rightarrow> c)"

definition ToLower :: "string \<Rightarrow> string" where
  "ToLower s = map toLowerByte s"

definition isSpace :: "char \<Rightarrow> bool" where
  "isSpace c = (c \<in> {CHR 0x09, CHR 0x0A, CHR 0x0B, CHR 0x0C, CHR 0x0D, CHR '' ''})"

fun fieldsFrom :: "string \<Rightarrow> string \<Rightarrow> string list" where
  "fieldsFrom cur [] = (if cur = [] then [] else [cur])"
| "fieldsFrom cur (c # cs) =
     (if isSpace c then (if cur = [] then fieldsFrom [] cs else cur # fieldsFrom [] cs)
      else fieldsFrom (cur @ [c]) cs)"

definition Fields :: "string \<Rightarrow> string list" where
  "Fields s = fieldsFrom [] s"

text \<open>The replacer walks the string from left to right; at each position the first pair, in
  argument order, whose old string starts there is replaced and the walk goes on after it,
  so that matches do not overlap and replaced text is not read again. The keys of this
  code are not empty; a pair with an empty old string never matches here. The counter
  holds the number of bytes of a match still to be passed over.\<close>

fun replaceFrom :: "(string \<times> string) list \<Rightarrow> nat \<Rightarrow> string \<Rightarrow> string" where
  "replaceFrom oldNew skip [] = []"
| "replaceFrom oldNew (Suc n) (c # cs) = replaceFrom oldNew n cs"
| "replaceFrom oldNew 0 (c # cs) =
     (case find (\<lambda>(old, new). old \<noteq> [] \<and> HasPrefix (c # cs) old) oldNew of
        Some (old, new) \<Rightarrow> new @ replaceFrom oldNew (length old - 1) cs
      | None \<Rightarrow> c # replaceFrom oldNew 0 cs)"

definition replaceKeyValues :: "string \<Rightarrow> (string \<times> string) list \<Rightarrow> string" where
  "replaceKeyValues s oldNew = replaceFrom oldNew 0 s"

text \<open>\<open>LayoutIdentifier\<close> is an interface of four methods; the record holds what they return.
  Of \<open>Type\<close>, the output format, the code reads \<open>Name\<close> and \<open>MediaType.Suffix\<close>.\<close>

record LayoutIdentifier =
  PageType :: string
  PageSection :: string
  PageKind :: string
  PageLayout :: string

record MediaType =
  Suffix :: string

record Type =
  Name :: string
  MediaType :: MediaType

record LayoutHandler =
  hasTheme :: bool

text \<open>The layout tables. The raw string literals of the source start and end with a line
  feed, and one line of \<open>layoutTaxonomy\<close> ends with a space.\<close>

definition layoutsHome :: string where
  "layoutsHome = ''index.NAME.SUFFIX index.SUFFIX _default/list.NAME.SUFFIX _default/list.SUFFIX''"

definition layoutsSection :: string where
  "layoutsSection = [CHR 0x0A]
     @ ''section/SECTION.NAME.SUFFIX section/SECTION.SUFFIX'' @ [CHR 0x0A]
     @ ''SECTION/list.NAME.SUFFIX SECTION/list.SUFFIX'' @ [CHR 0x0A]
     @ ''_default/section.NAME.SUFFIX _default/section.SUFFIX'' @ [CHR 0x0A]
     @ ''_default/list.NAME.SUFFIX _default/list.SUFFIX'' @ [CHR 0x0A]
     @ ''indexes/SECTION.NAME.SUFFIX indexes/SECTION.SUFFIX'' @ [CHR 0x0A]
     @ ''_default/indexes.NAME.SUFFIX _default/indexes.SUFFIX'' @ [CHR 0x0A]"

definition layoutTaxonomy :: string where
  "layoutTaxonomy = [CHR 0x0A]
     @ ''taxonomy/SECTION.NAME.SUFFIX taxonomy/SECTION.SUFFIX'' @ [CHR 0x0A]
     @ ''indexes/SECTION.NAME.SUFFIX indexes/SECTION.SUFFIX '' @ [CHR 0x0A]
     @ ''_default/taxonomy.NAME.SUFFIX _default/taxonomy.SUFFIX'' @ [CHR 0x0A]
     @ ''_default/list.NAME.SUFFIX _default/list.SUFFIX'' @ [CHR 0x0A]"

definition layoutTaxonomyTerm :: string where
  "layoutTaxonomyTerm = [CHR 0x0A]
     @ ''taxonomy/SECTION.terms.NAME.SUFFIX taxonomy/SECTION.terms.SUFFIX'' @ [CHR 0x0A]
     @ ''_default/terms.NAME.SUFFIX _default/terms.SUFFIX'' @ [CHR 0x0A]
     @ ''indexes/indexes.NAME.SUFFIX indexes/indexes.SUFFIX'' @ [CHR 0x0A]"

definition resolveTemplate :: "string \<Rightarrow> LayoutIdentifier \<Rightarrow> Type \<Rightarrow> string list" where
  "resolveTemplate templ lid tp =
     Fields (replaceKeyValues templ
       [(''SUFFIX'', Suffix (MediaType tp)),
        (''NAME'', ToLower (Name tp)),
        (''SECTION'', PageSection lid)])"

text \<open>\<open>regularPageLayouts\<close>: its loop \<open>for i := range t\<close>, then the function.\<close>

function typeLayouts ::
  "string list \<Rightarrow> string \<Rightarrow> string \<Rightarrow> string \<Rightarrow> nat \<Rightarrow> string list \<Rightarrow> string list" where
  "typeLayouts t layout name suffix i layouts =
     (if i < length t then
        (let search = take (length t - i) t;
             layouts = layouts @ [ToLower (path_Join search) @ ''/'' @ layout @ ''.'' @ name @ ''.'' @ suffix];
             layouts = layouts @ [ToLower (path_Join search) @ ''/'' @ layout @ ''.'' @ suffix]
         in typeLayouts t layout name suffix (i + 1) layouts)
      else layouts)"
  by pat_completeness auto
termination
  by (relation "measure (\<lambda>(t, layout, name, suffix, i, layouts). length t - i)") auto

declare typeLayouts.simps [simp del]

definition regularPageLayouts :: "string \<Rightarrow> string \<Rightarrow> Type \<Rightarrow> string list" where
  "regularPageLayouts types layout tp =
     (let layout = (if layout = [] then ''single'' else layout);
          suffix = Suffix (MediaType tp);
          name = ToLower (Name tp);
          layouts = (if types \<noteq> [] then typeLayouts (Split types (CHR ''/'')) layout name suffix 0 []
                     else []);
          layouts = layouts @ [''_default/'' @ layout @ ''.'' @ name @ ''.'' @ suffix];
          layouts = layouts @ [''_default/'' @ layout @ ''.'' @ suffix]
      in layouts)"

text \<open>The three loops of \<open>For\<close> that run when the handler has a theme; each appends to
  \<open>layoutsWithThemeLayouts\<close>.\<close>

fun placeNonInternal :: "string list \<Rightarrow> string list \<Rightarrow> string list" where
  "placeNonInternal layoutsWithThemeLayouts [] = layoutsWithThemeLayouts"
| "placeNonInternal layoutsWithThemeLayouts (t # ts) =
     (if \<not> HasPrefix t ''_internal/'' then placeNonInternal (layoutsWithThemeLayouts @ [t]) ts
      else placeNonInternal layoutsWithThemeLayouts ts)"

fun placeTheme :: "string list \<Rightarrow> string list \<Rightarrow> string list" where
  "placeTheme layoutsWithThemeLayouts [] = layoutsWithThemeLayouts"
| "placeTheme layoutsWithThemeLayouts (t # ts) =
     (if \<not> HasPrefix t ''_internal/'' then placeTheme (layoutsWithThemeLayouts @ [''theme/'' @ t]) ts
      else placeTheme layoutsWithThemeLayouts ts)"

fun placeInternal :: "string list \<Rightarrow> string list \<Rightarrow> string list" where
  "placeInternal layoutsWithThemeLayouts [] = layoutsWithThemeLayouts"
| "placeInternal layoutsWithThemeLayouts (t # ts) =
     (if HasPrefix t ''_internal/'' then placeInternal (layoutsWithThemeLayouts @ [t]) ts
      else placeInternal layoutsWithThemeLayouts ts)"

definition For :: "LayoutHandler \<Rightarrow> LayoutIdentifier \<Rightarrow> string \<Rightarrow> Type \<Rightarrow> string list" where
  "For l lid layoutOverride tp =
     (let layout = PageLayout lid;
          layout = (if layoutOverride \<noteq> [] then layoutOverride else layout);
          layouts =
            (if PageKind lid = ''home'' then resolveTemplate layoutsHome lid tp
             else if PageKind lid = ''section'' then resolveTemplate layoutsSection lid tp
             else if PageKind lid = ''taxonomy'' then resolveTemplate layoutTaxonomy lid tp
             else if PageKind lid = ''taxonomyTerm'' then resolveTemplate layoutTaxonomyTerm lid tp
             else if PageKind lid = ''page'' then regularPageLayouts (PageType lid) layout tp
             else [])
      in if hasTheme l then
           (let layoutsWithThemeLayouts = [];
                layoutsWithThemeLayouts = placeNonInternal layoutsWithThemeLayouts layouts;
                layoutsWithThemeLayouts = placeTheme layoutsWithThemeLayouts layouts;
                layoutsWithThemeLayouts = placeInternal layoutsWithThemeLayouts layouts
            in layoutsWithThemeLayouts)
         else layouts)"

section \<open>The template transformer\<close>

text \<open>\<open>decl\<close> maps a variable of the template to the text of the command it was declared
  with, \<open>$mysite\<close> to \<open>.Site\<close>.\<close>

type_synonym decl = "string \<rightharpoonup> string"

text \<open>The nodes of \<open>text/template/parse\<close> that the transformer tells apart. A list node is
  held by pointer and may be nil, as the else branch of an \<open>if\<close> without \<open>else\<close> is. A
  variable declared by a pipe is a variable node: it has its name as first identifier,
  here the first component of the pair. \<open>OtherNode\<close> stands for every other kind of node
  (text, identifier, string, number, dot, chain and so on) and holds its text.\<close>

datatype node =
    ListNode "node list"
  | NilListNode
  | ActionNode node
  | IfNode node node node
  | WithNode node node node
  | RangeNode node node node
  | TemplateNode string
  | PipeNode "(string \<times> string list) list" "node list"
  | CommandNode "node list"
  | FieldNode "string list"
  | VariableNode "string list"
  | OtherNode string

text \<open>\<open>String()\<close> of the nodes a command is made of: a field prints a dot before each
  identifier, a variable its identifiers joined by dots, a command its arguments joined
  by spaces with a pipe argument in parentheses, a pipe its declarations, \<open>:=\<close> and its
  commands joined by bars. The parser builds commands from operands only, so the text of
  a statement node is never asked for by the transformer.\<close>

fun node_String :: "node \<Rightarrow> string" where
  "node_String (FieldNode ident) = concat (map (\<lambda>i. ''.'' @ i) ident)"
| "node_String (VariableNode ident) = Join ident ''.''"
| "node_String (OtherNode text) = text"
| "node_String (CommandNode args) =
     Join (map (\<lambda>arg. case arg of
                       PipeNode ds cs \<Rightarrow> ''('' @ node_String arg @ '')''
                     | _ \<Rightarrow> node_String arg) args) '' ''"
| "node_String (PipeNode ds cmds) =
     (if ds = [] then [] else Join (map (\<lambda>(v, ids). Join (v # ids) ''.'') ds) '', '' @ '' := '')
     @ Join (map node_String cmds) '' | ''"
| "node_String n = []"

text \<open>\<open>sliceStartsWith\<close>: the length test, then the loop over the words.\<close>

fun wordsMatch :: "string list \<Rightarrow> string list \<Rightarrow> bool" where
  "wordsMatch slice [] = True"
| "wordsMatch [] (word # words) = False"
| "wordsMatch (x # slice) (word # words) = (if word \<noteq> x then False else wordsMatch slice words)"

definition sliceStartsWith :: "string list \<Rightarrow> string list \<Rightarrow> bool" where
  "sliceStartsWith slice words =
     (if length slice < length words then False else wordsMatch slice words)"

text \<open>\<open>indexOfFirstRealIdentAfterWords\<close>: the loop over \<open>idents\<close> from index \<open>i\<close>, then the
  function. The inner loop sets \<open>found\<close> to false when the identifier is one of the words.\<close>

fun firstRealIdent :: "string list \<Rightarrow> string list \<Rightarrow> int \<Rightarrow> int" where
  "firstRealIdent [] words i = - 1"
| "firstRealIdent (ident # idents) words i =
     (if ident = [] \<or> hd ident = CHR ''$'' then firstRealIdent idents words (i + 1)
      else (let found = (ident \<notin> set words)
            in if found then i else firstRealIdent idents words (i + 1)))"

definition indexOfFirstRealIdentAfterWords :: "string list \<Rightarrow> string list \<Rightarrow> string list \<Rightarrow> int" where
  "indexOfFirstRealIdentAfterWords resolvedIdents idents words =
     (if \<not> sliceStartsWith resolvedIdents words then - 1
      else firstRealIdent idents words 0)"

text \<open>The loop of \<open>indexOfReplacementStart\<close> that resolves the variables. It appends to
  \<open>replacements\<close> while it walks it, and does not end when a variable resolves to itself:
  the result is \<^const>\<open>None\<close> when the loop does not end, \<open>Some None\<close> when it returns
  \<open>-1\<close> for an unknown variable, and \<open>Some (Some replaced)\<close> when it ends.\<close>

partial_function (option) resolveVars ::
  "decl \<Rightarrow> string list \<Rightarrow> nat \<Rightarrow> string list \<Rightarrow> string list option option" where
  "resolveVars d replacements i replaced =
     (if i < length replacements then
        (let potentialVar = replacements ! i
         in if potentialVar = ''$'' then resolveVars d replacements (i + 1) replaced
            else if potentialVar = [] \<or> hd potentialVar \<noteq> CHR ''$'' then
              resolveVars d replacements (i + 1) (replaced @ Split potentialVar (CHR ''.''))
            else (case d potentialVar of
                    None \<Rightarrow> Some None
                  | Some replacement0 \<Rightarrow>
                      (let replacement = TrimPrefix replacement0 ''.''
                       in if replacement = [] then resolveVars d replacements (i + 1) replaced
                          else if hd replacement = CHR ''$'' then
                            resolveVars d (replacements @ Split replacement (CHR ''.'')) (i + 1)
                              replaced
                          else resolveVars d replacements (i + 1)
                                 (replaced @ Split replacement (CHR ''.'')))))
      else Some (Some replaced))"

declare resolveVars.simps [code]

definition paramsPaths :: "string list list" where
  "paramsPaths =
     [[''Params''],
      [''Site'', ''Params''],
      [''Page'', ''Site'', ''Params''],
      [''Page'', ''Params''],
      [''Site'', ''Language'', ''Params'']]"

text \<open>The loop over \<open>paramsPaths\<close>.\<close>

fun firstParamsPath :: "string list \<Rightarrow> string list \<Rightarrow> string list list \<Rightarrow> int" where
  "firstParamsPath resolvedIdents idents [] = - 1"
| "firstParamsPath resolvedIdents idents (paramPath # paths) =
     (let index = indexOfFirstRealIdentAfterWords resolvedIdents idents paramPath
      in if index \<noteq> - 1 then index else firstParamsPath resolvedIdents idents paths)"

definition indexOfReplacementStart :: "decl \<Rightarrow> string list \<Rightarrow> int option" where
  "indexOfReplacementStart d idents =
     (if length idents = 0 then Some (- 1)
      else (case resolveVars d (Split (hd idents) (CHR ''.'')) 0 [] of
              None \<Rightarrow> None
            | Some None \<Rightarrow> Some (- 1)
            | Some (Some replaced) \<Rightarrow>
                (let resolvedIdents = replaced @ tl idents
                 in Some (firstParamsPath resolvedIdents idents paramsPaths))))"

text \<open>\<open>updateIdentsIfNeeded\<close>: its loop, which lower-cases in place from \<open>index\<close> on, then
  the function; the model returns the identifiers.\<close>

function lowerFrom :: "string list \<Rightarrow> nat \<Rightarrow> string list" where
  "lowerFrom idents i =
     (if i < length idents then lowerFrom (idents[i := ToLower (idents ! i)]) (i + 1)
      else idents)"
  by pat_completeness auto
termination
  by (relation "measure (\<lambda>(idents, i). length idents - i)") auto

declare lowerFrom.simps [simp del]

definition updateIdentsIfNeeded :: "decl \<Rightarrow> string list \<Rightarrow> string list option" where
  "updateIdentsIfNeeded d idents =
     (case indexOfReplacementStart d idents of
        None \<Rightarrow> None
      | Some index \<Rightarrow> if index = - 1 then Some idents else Some (lowerFrom idents (nat index)))"

text \<open>The template context: the variable mappings and the template with its set of
  associated templates, of which \<open>Lookup\<close> finds one by name. The set is modelled by the
  root of the tree of each template in it. The transformer rewrites identifiers in place;
  the model returns the rewritten node and the context with the rewritten trees.\<close>

record templateContext =
  decl :: decl
  templ :: "string \<rightharpoonup> node"

text \<open>The loop of the pipe case that records the declarations: variable \<open>i\<close> is mapped
  to the text of command \<open>i\<close> when there is one.\<close>

fun recordDecls :: "(string \<times> string list) list \<Rightarrow> node list \<Rightarrow> nat \<Rightarrow> decl \<Rightarrow> decl" where
  "recordDecls [] cmds i d = d"
| "recordDecls ((v, ids) # elems) cmds i d =
     (if length cmds > i then recordDecls elems cmds (i + 1) (d(v \<mapsto> node_String (cmds ! i)))
      else recordDecls elems cmds (i + 1) d)"

text \<open>The loop of the command case over the arguments: the identifiers of field and
  variable nodes are updated, other arguments are left alone. \<^const>\<open>None\<close> when
  \<open>updateIdentsIfNeeded\<close> does not return.\<close>

fun updateArgs :: "decl \<Rightarrow> node list \<Rightarrow> node list option" where
  "updateArgs d [] = Some []"
| "updateArgs d (elem # args) =
     (case (case elem of
              FieldNode ident \<Rightarrow> map_option FieldNode (updateIdentsIfNeeded d ident)
            | VariableNode ident \<Rightarrow> map_option VariableNode (updateIdentsIfNeeded d ident)
            | _ \<Rightarrow> Some elem) of
        None \<Rightarrow> None
      | Some elem' \<Rightarrow> map_option (\<lambda>args'. elem' # args') (updateArgs d args))"

text \<open>\<open>paramsKeysToLower\<close> and its last loop, which calls it on the nodes collected. The
  recursion follows the templates a template calls and does not end when a template
  calls itself, directly or through others; the first argument bounds the depth of the
  recursion, and the result is \<^const>\<open>None\<close> when the bound is reached or the update
  of an identifier does not return.\<close>

fun paramsKeysToLower :: "nat \<Rightarrow> templateContext \<Rightarrow> node \<Rightarrow> (node \<times> templateContext) option"
  and paramsKeysToLower_nodes ::
    "nat \<Rightarrow> templateContext \<Rightarrow> node list \<Rightarrow> (node list \<times> templateContext) option" where
  "paramsKeysToLower 0 c n = None"
| "paramsKeysToLower (Suc fuel) c (ListNode nodes) =
     (case paramsKeysToLower_nodes fuel c nodes of
        Some (nodes', c') \<Rightarrow> Some (ListNode nodes', c')
      | None \<Rightarrow> None)"
| "paramsKeysToLower (Suc fuel) c NilListNode = Some (NilListNode, c)"
| "paramsKeysToLower (Suc fuel) c (ActionNode pipe) =
     (case paramsKeysToLower_nodes fuel c [pipe] of
        Some ([pipe'], c') \<Rightarrow> Some (ActionNode pipe', c')
      | _ \<Rightarrow> None)"
| "paramsKeysToLower (Suc fuel) c (IfNode pipe list elseList) =
     (case paramsKeysToLower_nodes fuel c [pipe, list, elseList] of
        Some ([pipe', list', elseList'], c') \<Rightarrow> Some (IfNode pipe' list' elseList', c')
      | _ \<Rightarrow> None)"
| "paramsKeysToLower (Suc fuel) c (WithNode pipe list elseList) =
     (case paramsKeysToLower_nodes fuel c [pipe, list, elseList] of
        Some ([pipe', list', elseList'], c') \<Rightarrow> Some (WithNode pipe' list' elseList', c')
      | _ \<Rightarrow> None)"
| "paramsKeysToLower (Suc fuel) c (RangeNode pipe list elseList) =
     (case paramsKeysToLower_nodes fuel c [pipe, list, elseList] of
        Some ([pipe', list', elseList'], c') \<Rightarrow> Some (RangeNode pipe' list' elseList', c')
      | _ \<Rightarrow> None)"
| "paramsKeysToLower (Suc fuel) c (TemplateNode name) =
     (case templ c name of
        None \<Rightarrow> Some (TemplateNode name, c)
      | Some root \<Rightarrow>
          (case paramsKeysToLower_nodes fuel c [root] of
             Some ([root'], c') \<Rightarrow> Some (TemplateNode name, c'\<lparr>templ := (templ c')(name \<mapsto> root')\<rparr>)
           | _ \<Rightarrow> None))"
| "paramsKeysToLower (Suc fuel) c (PipeNode elems cmds) =
     (let c1 = c\<lparr>decl := recordDecls elems cmds 0 (decl c)\<rparr>
      in case paramsKeysToLower_nodes fuel c1 cmds of
           Some (cmds', c') \<Rightarrow> Some (PipeNode elems cmds', c')
         | None \<Rightarrow> None)"
| "paramsKeysToLower (Suc fuel) c (CommandNode args) =
     (case updateArgs (decl c) args of
        Some args' \<Rightarrow> Some (CommandNode args', c)
      | None \<Rightarrow> None)"
| "paramsKeysToLower (Suc fuel) c (FieldNode ident) = Some (FieldNode ident, c)"
| "paramsKeysToLower (Suc fuel) c (VariableNode ident) = Some (VariableNode ident, c)"
| "paramsKeysToLower (Suc fuel) c (OtherNode text) = Some (OtherNode text, c)"
| "paramsKeysToLower_nodes fuel c [] = Some ([], c)"
| "paramsKeysToLower_nodes fuel c (n # nodes) =
     (case paramsKeysToLower fuel c n of
        None \<Rightarrow> None
      | Some (n', c') \<Rightarrow>
          (case paramsKeysToLower_nodes fuel c' nodes of
             None \<Rightarrow> None
           | Some (nodes', c'') \<Rightarrow> Some (n' # nodes', c'')))"

text \<open>\<open>applyTemplateTransformers\<close> on the template called \<open>name\<close> of the set: an error
  when there is no such template or it has no tree, else the set with the trees
  rewritten.\<close>

datatype transformError = NoTemplate

definition applyTemplateTransformers ::
  "nat \<Rightarrow> (string \<rightharpoonup> node) \<Rightarrow> string \<Rightarrow> (transformError + (string \<rightharpoonup> node)) option" where
  "applyTemplateTransformers fuel templates name =
     (case templates name of
        None \<Rightarrow> Some (Inl NoTemplate)
      | Some root \<Rightarrow>
          (case paramsKeysToLower fuel \<lparr>decl = Map.empty, templ = templates\<rparr> root of
             None \<Rightarrow> None
           | Some (root', c) \<Rightarrow> Some (Inr ((templ c)(name \<mapsto> root')))))"

text \<open>The template \<open>{{ $p := .Params }}{{ $p.MyKey }}\<close> as the parser builds it, and what
  the transformer makes of it.\<close>

definition exampleTemplate :: node where
  "exampleTemplate =
     ListNode
       [ActionNode (PipeNode [(''$p'', [])] [CommandNode [FieldNode [''Params'']]]),
        ActionNode (PipeNode [] [CommandNode [VariableNode [''$p'', ''MyKey'']]])]"

definition exampleTemplate_lowered :: node where
  "exampleTemplate_lowered =
     ListNode
       [ActionNode (PipeNode [(''$p'', [])] [CommandNode [FieldNode [''Params'']]]),
        ActionNode (PipeNode [] [CommandNode [VariableNode [''$p'', ''mykey'']]])]"

text \<open>A template with a chain of aliases,
  \<open>{{ $c := .Params }}{{ $b := $c.Y }}{{ $a := $b.X }}{{ $a.Foo }}\<close>, the variable mappings
  it declares, and what the transformer makes of it.\<close>

definition chainTemplate :: node where
  "chainTemplate =
     ListNode
       [ActionNode (PipeNode [(''$c'', [])] [CommandNode [FieldNode [''Params'']]]),
        ActionNode (PipeNode [(''$b'', [])] [CommandNode [VariableNode [''$c'', ''Y'']]]),
        ActionNode (PipeNode [(''$a'', [])] [CommandNode [VariableNode [''$b'', ''X'']]]),
        ActionNode (PipeNode [] [CommandNode [VariableNode [''$a'', ''Foo'']]])]"

definition chainDecl :: decl where
  "chainDecl = [''$c'' \<mapsto> ''.Params'', ''$b'' \<mapsto> ''$c.Y'', ''$a'' \<mapsto> ''$b.X'']"

definition chainTemplate_transformed :: node where
  "chainTemplate_transformed =
     ListNode
       [ActionNode (PipeNode [(''$c'', [])] [CommandNode [FieldNode [''Params'']]]),
        ActionNode (PipeNode [(''$b'', [])] [CommandNode [VariableNode [''$c'', ''y'']]]),
        ActionNode (PipeNode [(''$a'', [])] [CommandNode [VariableNode [''$b'', ''x'']]]),
        ActionNode (PipeNode [] [CommandNode [VariableNode [''$a'', ''Foo'']]])]"

text \<open>The resolution of an identifier path as the specification words it: the leading
  segment is resolved through the alias table again and again, an alias standing for the
  dotted path it was declared with, until the leading segment is no alias; an unknown
  variable aborts. The first argument bounds the number of aliases followed: the result
  is \<^const>\<open>None\<close> when the bound is reached, \<open>Some None\<close> for an abort.\<close>

fun spec_resolvedPath :: "nat \<Rightarrow> decl \<Rightarrow> string list \<Rightarrow> string list option option" where
  "spec_resolvedPath 0 d path = None"
| "spec_resolvedPath (Suc n) d [] = Some (Some [])"
| "spec_resolvedPath (Suc n) d (seg # rest) =
     (if seg = ''$'' then Some (Some rest)
      else if seg = [] \<or> hd seg \<noteq> CHR ''$'' then Some (Some (seg # rest))
      else (case d seg of
              None \<Rightarrow> Some None
            | Some alias \<Rightarrow>
                (let target = TrimPrefix alias ''.''
                 in if target = [] then Some (Some rest)
                    else spec_resolvedPath n d (Split target (CHR ''.'') @ rest))))"

section \<open>The site build\<close>

text \<open>The build of a site is modelled by what it does to the site and by a log of its
  effects: the steps of the timer, the templates executed with the data handed to them,
  and the files written. What lies outside these sources is the \<open>world\<close>: the directories
  and files found on disk, the parsing of a content file into a page, the order of
  \<open>Sort\<close>, the handling of shortcodes, and the execution of a template, which gives the
  bytes produced and whether it failed.\<close>

text \<open>A page of the site: the fields the build reads or writes. \<open>PageLayoutName\<close> holds
  what \<open>Layout()\<close> returns, \<open>Terms\<close> what \<open>GetParam\<close> returns for the plural of an index (no
  entry: nil), \<open>SiteSection\<close> what \<open>GetSection()\<close> returns. \<open>Next\<close> and \<open>Prev\<close> point into the
  pages of the site by position.\<close>

record SitePage =
  FileName :: string
  Draft :: bool
  PageDate :: nat
  SiteSection :: string
  OutFile :: string
  Content :: string
  RenderedContent :: string
  PageLayoutName :: string
  Terms :: "(string \<times> string list) list"
  Next :: "nat option"
  Prev :: "nat option"

text \<open>A value of the \<open>Data\<close> map of a node, and a node: its date and its data. The title
  and the URLs of a node are computed by helpers outside these sources (\<open>strings.Title\<close>,
  \<open>inflect.Pluralize\<close>, \<open>Urlize\<close>, \<open>MakePermalink\<close>) and are left out, and so is \<open>Info\<close>, the
  copy of the site's data that pages and nodes carry.\<close>

datatype dataValue =
    PagesValue "SitePage list"
  | StringValue string
  | IndexValue "(string \<times> SitePage list) list"

record Node =
  NodeDate :: nat
  Data :: "string \<rightharpoonup> dataValue"

datatype templateData = PageData SitePage | NodeData Node

datatype event =
    TimerStep string
  | Executed string templateData
  | Written string string

text \<open>The errors of a build: the one of \<open>BuildSiteMeta\<close>,
  \<open>Unable to build site metadata, no pages found in directory %s\<close>; the error of a
  template execution, by the name of the template; the exit of \<open>FatalErr\<close> when a directory
  is missing; and the run-time panic of an index out of range.\<close>

datatype buildError =
    NoPagesFound string
  | ExecuteFailed string
  | FatalExit string
  | IndexOutOfRange

record world =
  layoutDirExists :: bool
  contentDirExists :: bool
  contentFiles :: "string list"
  layoutFiles :: "string list"
  NewPage :: "string \<Rightarrow> SitePage"
  SortPages :: "SitePage list \<Rightarrow> SitePage list"
  ShortcodesHandle :: "string \<Rightarrow> SitePage \<Rightarrow> string"
  ExecuteTemplate :: "string \<Rightarrow> templateData \<Rightarrow> string \<times> bool"

text \<open>The site. \<open>ConfigIndexes\<close> is the map \<open>c.Indexes\<close> from singular to plural, \<open>Indexes\<close>
  the index of each plural and \<open>Sections\<close> the index of the sections; a Go map is held as
  the list of its entries in the order a \<open>range\<close> visits them. \<open>Tmpl\<close> holds the names of
  the templates parsed.\<close>

record Site =
  BuildDrafts :: bool
  ContentDir :: string
  LayoutDir :: string
  BaseUrl :: string
  UglyUrls :: bool
  ConfigIndexes :: "(string \<times> string) list"
  Files :: "string list"
  Pages :: "SitePage list"
  Tmpl :: "string list"
  Indexes :: "(string \<times> (string \<times> SitePage list) list) list"
  Sections :: "(string \<times> SitePage list) list"
  LastChange :: nat
  events :: "event list"

definition timerStep :: "string \<Rightarrow> Site \<Rightarrow> Site" where
  "timerStep name st = st\<lparr>events := events st @ [TimerStep name]\<rparr>"

text \<open>\<open>checkDirectories\<close> exits when a directory is missing; \<open>initialize\<close> collects the
  content files and \<open>prepTemplates\<close> parses the layout files, executing none.\<close>

definition checkDirectories :: "world \<Rightarrow> Site \<Rightarrow> buildError option" where
  "checkDirectories w st =
     (if \<not> layoutDirExists w then
        Some (FatalExit (''No layout directory found, expecting to find it at '' @ LayoutDir st))
      else if \<not> contentDirExists w then
        Some (FatalExit (''No source directory found, expecting to find it at '' @ ContentDir st))
      else None)"

definition initialize :: "world \<Rightarrow> Site \<Rightarrow> buildError option \<times> Site" where
  "initialize w st =
     (case checkDirectories w st of
        Some err \<Rightarrow> (Some err, st)
      | None \<Rightarrow> (None, st\<lparr>Files := Files st @ contentFiles w\<rparr>))"

definition prepTemplates :: "world \<Rightarrow> Site \<Rightarrow> Site" where
  "prepTemplates w st = st\<lparr>Tmpl := layoutFiles w\<rparr>"

text \<open>\<open>CreatePages\<close>: its loop over the files, then the sort.\<close>

fun createPagesFrom :: "world \<Rightarrow> bool \<Rightarrow> string list \<Rightarrow> SitePage list \<Rightarrow> SitePage list" where
  "createPagesFrom w drafts [] pages = pages"
| "createPagesFrom w drafts (fileName # files) pages =
     (let page = NewPage w fileName
      in if drafts \<or> \<not> Draft page then createPagesFrom w drafts files (pages @ [page])
         else createPagesFrom w drafts files pages)"

definition CreatePages :: "world \<Rightarrow> Site \<Rightarrow> Site" where
  "CreatePages w st =
     st\<lparr>Pages := SortPages w (createPagesFrom w (BuildDrafts st) (Files st) (Pages st))\<rparr>"

definition setupPrevNext :: "Site \<Rightarrow> Site" where
  "setupPrevNext st =
     st\<lparr>Pages := map (\<lambda>i. (Pages st ! i)
                         \<lparr>Next := (if i + 1 < length (Pages st) then Some (i + 1) else Next (Pages st ! i)),
                          Prev := (if i > 0 then Some (i - 1) else Prev (Pages st ! i))\<rparr>)
                    [0..<length (Pages st)]\<rparr>"

text \<open>\<open>Index.Add\<close> appends the page to the pages of the key; the index is declared outside
  these sources.\<close>

fun Index_Add :: "string \<Rightarrow> SitePage \<Rightarrow> (string \<times> SitePage list) list \<Rightarrow> (string \<times> SitePage list) list" where
  "Index_Add key p [] = [(key, [p])]"
| "Index_Add key p ((k, ps) # index) =
     (if k = key then (k, ps @ [p]) # index else (k, ps) # Index_Add key p index)"

text \<open>\<open>BuildSiteMeta\<close>: the index of one plural, built from the terms of every page and
  sorted; the index of the sections; then the test for a site without pages.\<close>

fun addTerms :: "string list \<Rightarrow> SitePage \<Rightarrow> (string \<times> SitePage list) list \<Rightarrow> (string \<times> SitePage list) list" where
  "addTerms [] p index = index"
| "addTerms (idx # vals) p index = addTerms vals p (Index_Add idx p index)"

fun buildIndex :: "string \<Rightarrow> SitePage list \<Rightarrow> (string \<times> SitePage list) list \<Rightarrow> (string \<times> SitePage list) list" where
  "buildIndex plural [] index = index"
| "buildIndex plural (p # pages) index =
     (case map_of (Terms p) plural of
        Some vals \<Rightarrow> buildIndex plural pages (addTerms vals p index)
      | None \<Rightarrow> buildIndex plural pages index)"

fun buildSections :: "SitePage list \<Rightarrow> (string \<times> SitePage list) list \<Rightarrow> (string \<times> SitePage list) list" where
  "buildSections [] index = index"
| "buildSections (p # pages) index = buildSections pages (Index_Add (SiteSection p) p index)"

definition sortIndex :: "world \<Rightarrow> (string \<times> SitePage list) list \<Rightarrow> (string \<times> SitePage list) list" where
  "sortIndex w index = map (\<lambda>(k, ps). (k, SortPages w ps)) index"

definition BuildSiteMeta :: "world \<Rightarrow> Site \<Rightarrow> buildError option \<times> Site" where
  "BuildSiteMeta w st =
     (let st1 = st\<lparr>Indexes := map (\<lambda>(singular, plural).
                                      (plural, sortIndex w (buildIndex plural (Pages st) [])))
                                 (ConfigIndexes st),
                    Sections := sortIndex w (buildSections (Pages st) [])\<rparr>
      in if length (Pages st1) = 0 then
           (Some (NoPagesFound (ContentDir st1)), st1)
         else (None, st1\<lparr>LastChange := PageDate (Pages st1 ! 0)\<rparr>))"

definition Process :: "world \<Rightarrow> Site \<Rightarrow> buildError option \<times> Site" where
  "Process w st =
     (case initialize w st of
        (Some err, st1) \<Rightarrow> (Some err, st1)
      | (None, st1) \<Rightarrow>
          (let st2 = prepTemplates w st1;
               st3 = timerStep ''initialize & template prep'' st2;
               st4 = CreatePages w st3;
               st5 = setupPrevNext st4;
               st6 = timerStep ''import pages'' st5
           in case BuildSiteMeta w st6 of
                (Some err, st7) \<Rightarrow> (Some err, st7)
              | (None, st7) \<Rightarrow> (None, timerStep ''build indexes'' st7)))"

text \<open>\<open>RenderThing\<close> executes a template on a page or a node; \<open>WritePublic\<close> writes a file
  under the publish directory.\<close>

definition NewNode :: "Site \<Rightarrow> Node" where
  "NewNode st = \<lparr>NodeDate = 0, Data = Map.empty\<rparr>"

definition RenderThing ::
  "world \<Rightarrow> templateData \<Rightarrow> string \<Rightarrow> Site \<Rightarrow> (string \<times> buildError option) \<times> Site" where
  "RenderThing w d layout st =
     (let (buffer, failed) = ExecuteTemplate w layout d
      in ((buffer, if failed then Some (ExecuteFailed layout) else None),
          st\<lparr>events := events st @ [Executed layout d]\<rparr>))"

definition WritePublic :: "string \<Rightarrow> string \<Rightarrow> Site \<Rightarrow> Site" where
  "WritePublic path content st = st\<lparr>events := events st @ [Written path content]\<rparr>"

definition NewXMLBuffer :: string where
  "NewXMLBuffer =
     ''<?xml version='' @ [CHR 0x22] @ ''1.0'' @ [CHR 0x22]
     @ '' encoding='' @ [CHR 0x22] @ ''utf-8'' @ [CHR 0x22]
     @ '' standalone='' @ [CHR 0x22] @ ''yes'' @ [CHR 0x22] @ '' ?>'' @ [CHR 0x0A]"

text \<open>The feed of a node, written when the template \<open>rss.xml\<close> exists; the error of its
  execution is not looked at.\<close>

definition renderFeed :: "world \<Rightarrow> Node \<Rightarrow> string \<Rightarrow> Site \<Rightarrow> Site" where
  "renderFeed w n path st =
     (if ''rss.xml'' \<in> set (Tmpl st) then
        (let (y, failed) = ExecuteTemplate w ''rss.xml'' (NodeData n);
             st1 = st\<lparr>events := events st @ [Executed ''rss.xml'' (NodeData n)]\<rparr>
         in WritePublic path (NewXMLBuffer @ y) st1)
      else st)"

definition ProcessShortcodes :: "world \<Rightarrow> Site \<Rightarrow> Site" where
  "ProcessShortcodes w st =
     st\<lparr>Pages := map (\<lambda>p. p\<lparr>Content := ShortcodesHandle w (Content p) p\<rparr>) (Pages st)\<rparr>"

text \<open>\<open>strings.Replace\<close> of every occurrence and \<open>strings.TrimRight\<close> of a byte, for
  \<open>AbsUrlify\<close>.\<close>

definition ReplaceAll :: "string \<Rightarrow> string \<Rightarrow> string \<Rightarrow> string" where
  "ReplaceAll text old new = replaceFrom [(old, new)] 0 text"

definition TrimRight :: "string \<Rightarrow> char \<Rightarrow> string" where
  "TrimRight text c = rev (dropWhile (\<lambda>x. x = c) (rev text))"

definition AbsUrlify :: "Site \<Rightarrow> Site" where
  "AbsUrlify st =
     st\<lparr>Pages := map (\<lambda>p.
        (let content = Content p;
             content = ReplaceAll content ('' src='' @ [CHR 0x22] @ ''/'')
                         ('' src='' @ [CHR 0x22] @ BaseUrl st);
             content = ReplaceAll content ('' src='' @ [CHR 0x27] @ ''/'')
                         ('' src='' @ [CHR 0x27] @ BaseUrl st);
             content = ReplaceAll content ('' href='' @ [CHR 0x27] @ ''/'')
                         ('' href='' @ [CHR 0x27] @ BaseUrl st);
             content = ReplaceAll content ('' href='' @ [CHR 0x22] @ ''/'')
                         ('' href='' @ [CHR 0x22] @ BaseUrl st);
             baseWithoutTrailingSlash = TrimRight (BaseUrl st) (CHR ''/'');
             content = ReplaceAll content (baseWithoutTrailingSlash @ ''//'')
                         (baseWithoutTrailingSlash @ ''/'')
         in p\<lparr>Content := content\<rparr>)) (Pages st)\<rparr>"

text \<open>\<open>RenderIndexes\<close>: the inner loop over the terms of one index, the outer loop over the
  indexes. The date of the node is that of the first page of the term.\<close>

fun renderIndexTerms ::
  "world \<Rightarrow> string \<Rightarrow> string \<Rightarrow> (string \<times> SitePage list) list \<Rightarrow> Site \<Rightarrow> buildError option \<times> Site" where
  "renderIndexTerms w singular plural [] st = (None, st)"
| "renderIndexTerms w singular plural ((k, pages) # terms) st =
     (case pages of
        [] \<Rightarrow> (Some IndexOutOfRange, st)
      | first # others \<Rightarrow>
          (let n = NewNode st;
               n = n\<lparr>NodeDate := PageDate first\<rparr>;
               n = n\<lparr>Data := (Data n)(singular \<mapsto> PagesValue pages)\<rparr>;
               n = n\<lparr>Data := (Data n)(''Pages'' \<mapsto> PagesValue pages)\<rparr>;
               layout = ''indexes'' @ ''/'' @ singular @ ''.html''
           in case RenderThing w (NodeData n) layout st of
                ((x, Some err), st1) \<Rightarrow> (Some err, st1)
              | ((x, None), st1) \<Rightarrow>
                  (let base = (if UglyUrls st1 then plural @ ''/'' @ k
                               else plural @ ''/'' @ k @ ''/'' @ ''index'');
                       st2 = WritePublic (base @ ''.html'') x st1;
                       st3 = renderFeed w n (base @ ''.xml'') st2
                   in renderIndexTerms w singular plural terms st3)))"

fun RenderIndexes_from :: "world \<Rightarrow> (string \<times> string) list \<Rightarrow> Site \<Rightarrow> buildError option \<times> Site" where
  "RenderIndexes_from w [] st = (None, st)"
| "RenderIndexes_from w ((singular, plural) # indexes) st =
     (case renderIndexTerms w singular plural
             (case map_of (Indexes st) plural of Some index \<Rightarrow> index | None \<Rightarrow> []) st of
        (Some err, st1) \<Rightarrow> (Some err, st1)
      | (None, st1) \<Rightarrow> RenderIndexes_from w indexes st1)"

definition RenderIndexes :: "world \<Rightarrow> Site \<Rightarrow> buildError option \<times> Site" where
  "RenderIndexes w st = RenderIndexes_from w (ConfigIndexes st) st"

text \<open>\<open>RenderIndexesIndexes\<close>: the overview of each index, when its layout exists.\<close>

fun RenderIndexesIndexes_from :: "world \<Rightarrow> string \<Rightarrow> (string \<times> string) list \<Rightarrow> Site \<Rightarrow> Site" where
  "RenderIndexesIndexes_from w layout [] st = st"
| "RenderIndexesIndexes_from w layout ((singular, plural) # indexes) st =
     (let n = NewNode st;
          n = n\<lparr>Data := (Data n)(''Singular'' \<mapsto> StringValue singular)\<rparr>;
          n = n\<lparr>Data := (Data n)(''Plural'' \<mapsto> StringValue plural)\<rparr>;
          n = n\<lparr>Data := (Data n)(''Index'' \<mapsto>
                 IndexValue (case map_of (Indexes st) plural of Some index \<Rightarrow> index | None \<Rightarrow> []))\<rparr>;
          ((x, err), st1) = RenderThing w (NodeData n) layout st;
          st2 = WritePublic (plural @ ''/'' @ ''index.html'') x st1
      in RenderIndexesIndexes_from w layout indexes st2)"

definition RenderIndexesIndexes :: "world \<Rightarrow> Site \<Rightarrow> Site" where
  "RenderIndexesIndexes w st =
     (let layout = ''indexes'' @ ''/'' @ ''indexes.html''
      in if layout \<in> set (Tmpl st) then RenderIndexesIndexes_from w layout (ConfigIndexes st) st
         else st)"

text \<open>\<open>RenderLists\<close>: the list of each section.\<close>

fun RenderLists_from :: "world \<Rightarrow> (string \<times> SitePage list) list \<Rightarrow> Site \<Rightarrow> buildError option \<times> Site" where
  "RenderLists_from w [] st = (None, st)"
| "RenderLists_from w ((section, pages) # sects) st =
     (case pages of
        [] \<Rightarrow> (Some IndexOutOfRange, st)
      | first # others \<Rightarrow>
          (let n = NewNode st;
               n = n\<lparr>NodeDate := PageDate first\<rparr>;
               n = n\<lparr>Data := (Data n)(''Pages'' \<mapsto> PagesValue pages)\<rparr>;
               layout = ''indexes'' @ ''/'' @ section @ ''.html''
           in case RenderThing w (NodeData n) layout st of
                ((x, Some err), st1) \<Rightarrow> (Some err, st1)
              | ((x, None), st1) \<Rightarrow>
                  (let st2 = WritePublic (section @ ''/'' @ ''index.html'') x st1;
                       st3 = renderFeed w n (section @ ''/'' @ ''index.xml'') st2
                   in RenderLists_from w sects st3)))"

definition RenderLists :: "world \<Rightarrow> Site \<Rightarrow> buildError option \<times> Site" where
  "RenderLists w st = RenderLists_from w (Sections st) st"

text \<open>\<open>RenderPages\<close>: the loop over the pages; \<open>done\<close> holds the pages rendered so far.\<close>

fun RenderPages_from ::
  "world \<Rightarrow> SitePage list \<Rightarrow> SitePage list \<Rightarrow> Site \<Rightarrow> buildError option \<times> Site" where
  "RenderPages_from w done [] st = (None, st\<lparr>Pages := done\<rparr>)"
| "RenderPages_from w done (p # pages) st =
     (case RenderThing w (PageData p) (PageLayoutName p) st of
        ((content, Some err), st1) \<Rightarrow> (Some err, st1\<lparr>Pages := done @ p # pages\<rparr>)
      | ((content, None), st1) \<Rightarrow>
          RenderPages_from w (done @ [p\<lparr>RenderedContent := content\<rparr>]) pages st1)"

definition RenderPages :: "world \<Rightarrow> Site \<Rightarrow> buildError option \<times> Site" where
  "RenderPages w st = RenderPages_from w [] (Pages st) st"

text \<open>\<open>WritePages\<close>: the loop over the pages.\<close>

fun WritePages_from :: "SitePage list \<Rightarrow> Site \<Rightarrow> Site" where
  "WritePages_from [] st = st"
| "WritePages_from (p # pages) st =
     WritePages_from pages (WritePublic (SiteSection p @ ''/'' @ OutFile p) (RenderedContent p) st)"

definition WritePages :: "Site \<Rightarrow> Site" where
  "WritePages st = WritePages_from (Pages st) st"

text \<open>\<open>RenderHomePage\<close>. The node of the home page takes its date from the first page, a
  read out of range when the site has no page, and its \<open>Pages\<close> from the pages of the
  site.\<close>

definition homePageNode :: "Site \<Rightarrow> SitePage \<Rightarrow> Node" where
  "homePageNode st first =
     (let n = NewNode st;
          n = n\<lparr>NodeDate := PageDate first\<rparr>
      in if length (Pages st) < 9 then n\<lparr>Data := (Data n)(''Pages'' \<mapsto> PagesValue (Pages st))\<rparr>
         else n\<lparr>Data := (Data n)(''Pages'' \<mapsto> PagesValue (take 9 (Pages st)))\<rparr>)"

definition RenderHomePage :: "world \<Rightarrow> Site \<Rightarrow> buildError option \<times> Site" where
  "RenderHomePage w st =
     (case Pages st of
        [] \<Rightarrow> (Some IndexOutOfRange, st)
      | first # others \<Rightarrow>
          (let n = homePageNode st first
           in case RenderThing w (NodeData n) ''index.html'' st of
                ((x, Some err), st1) \<Rightarrow> (Some err, st1)
              | ((x, None), st1) \<Rightarrow>
                  (let st2 = WritePublic ''index.html'' x st1;
                       st3 = renderFeed w n ''index.xml'' st2
                   in (None, st3))))"

text \<open>\<open>Render\<close> looks at the error of \<open>RenderPages\<close> only; a panic ends the build wherever
  it is raised.\<close>

definition Render :: "world \<Rightarrow> Site \<Rightarrow> buildError option \<times> Site" where
  "Render w st =
     (let st1 = ProcessShortcodes w st;
          st2 = timerStep ''render shortcodes'' st1;
          st3 = AbsUrlify st2;
          st4 = timerStep ''absolute URLify'' st3
      in case RenderIndexes w st4 of
           (Some IndexOutOfRange, st5) \<Rightarrow> (Some IndexOutOfRange, st5)
         | (_, st5) \<Rightarrow>
             (let st6 = RenderIndexesIndexes w st5;
                  st7 = timerStep ''render and write indexes'' st6
              in case RenderLists w st7 of
                   (Some IndexOutOfRange, st8) \<Rightarrow> (Some IndexOutOfRange, st8)
                 | (_, st8) \<Rightarrow>
                     (let st9 = timerStep ''render and write lists'' st8
                      in case RenderPages w st9 of
                           (Some err, st10) \<Rightarrow> (Some err, st10)
                         | (None, st10) \<Rightarrow>
                             (let st11 = timerStep ''render pages'' st10
                              in case RenderHomePage w st11 of
                                   (Some IndexOutOfRange, st12) \<Rightarrow> (Some IndexOutOfRange, st12)
                                 | (_, st12) \<Rightarrow>
                                     (None, timerStep ''render and write homepage'' st12)))))"

definition Write :: "Site \<Rightarrow> Site" where
  "Write st = timerStep ''write pages'' (WritePages st)"

definition Build :: "world \<Rightarrow> Site \<Rightarrow> buildError option \<times> Site" where
  "Build w st =
     (case Process w st of
        (Some err, st1) \<Rightarrow> (Some err, st1)
      | (None, st1) \<Rightarrow>
          (case Render w st1 of
             (Some err, st2) \<Rightarrow> (Some err, st2)
           | (None, st2) \<Rightarrow> (None, Write st2)))"

text \<open>The site when its pages have been made: after \<open>initialize\<close>, \<open>prepTemplates\<close> and
  \<open>CreatePages\<close>, as \<open>Process\<close> runs them.\<close>

definition materialized :: "world \<Rightarrow> Site \<Rightarrow> Site" where
  "materialized w st =
     CreatePages w
       (timerStep ''initialize & template prep'' (prepTemplates w (snd (initialize w st))))"

text \<open>A world and sites for the examples: one content file that is a draft, in a site
  that does not build drafts; and a site of ten pages.\<close>

definition exampleSitePage :: SitePage where
  "exampleSitePage =
     \<lparr>FileName = ''post/first.md'', Draft = True, PageDate = 20130701, SiteSection = ''post'',
      OutFile = ''first/index.html'', Content = ''<p>Hello</p>'', RenderedContent = [],
      PageLayoutName = ''post/single.html'', Terms = [(''tags'', [''go''])],
      Next = None, Prev = None\<rparr>"

definition exampleWorld :: world where
  "exampleWorld =
     \<lparr>layoutDirExists = True, contentDirExists = True,
      contentFiles = [''post/first.md''], layoutFiles = [''index.html'', ''rss.xml''],
      NewPage = (\<lambda>fileName. exampleSitePage\<lparr>FileName := fileName\<rparr>),
      SortPages = (\<lambda>pages. pages),
      ShortcodesHandle = (\<lambda>content page. content),
      ExecuteTemplate = (\<lambda>layout d. (layout, False))\<rparr>"

definition exampleSite :: Site where
  "exampleSite =
     \<lparr>BuildDrafts = False, ContentDir = ''content'', LayoutDir = ''layouts'',
      BaseUrl = ''http://example.org/'', UglyUrls = False, ConfigIndexes = [(''tag'', ''tags'')],
      Files = [], Pages = [], Tmpl = [], Indexes = [], Sections = [], LastChange = 0,
      events = []\<rparr>"

definition tenPageSite :: Site where
  "tenPageSite = exampleSite\<lparr>Pages := replicate 10 exampleSitePage\<rparr>"

section \<open>Properties of the reference index\<close>


lemma getFromCache_cases:
  "getFromCache index k = (None, None) \<and> index k = None
   \<or> (\<exists>p. getFromCache index k = (Some p, None) \<and> index k = Some p \<and> p \<noteq> ambiguityFlag)
   \<or> getFromCache index k = (None, Some (AmbiguousRef k)) \<and> index k = Some ambiguityFlag"
  by (auto simp: getFromCache_def pageIndex_Get_def split: option.splits)

lemma try_eq:
  "(case getFromCache index k of (Some p, None) \<Rightarrow> (Some p, None) | _ \<Rightarrow> B)
     = (if isHit index k then getFromCache index k else B)"
  by (auto simp: isHit_def split: prod.splits option.splits)

lemma try_log_eq:
  "(case getFromCache_log index k log of
      ((Some p, None), log') \<Rightarrow> ((Some p, None), log')
    | (_, log') \<Rightarrow> B log')
     = (if isHit index k then (getFromCache index k, log @ [k]) else B (log @ [k]))"
  by (auto simp: isHit_def getFromCache_log_def split: prod.splits option.splits)

lemma last_hit:
  "isHit index (TrimPrefix ref ''/'') \<Longrightarrow>
     getPageNew_last h index ref = getFromCache index (TrimPrefix ref ''/'')"
  by (auto simp: isHit_def getPageNew_last_def Let_def split: prod.splits option.splits)

lemma last_log_eq:
  "getPageNew_last_log h index ref log = (getPageNew_last h index ref, log @ [TrimPrefix ref ''/''])"
  by (simp add: getPageNew_last_log_def getPageNew_last_def getFromCache_log_def Let_def
      split: prod.splits)

lemma implicit_eq: "getPageNew_implicit h index ref =
    (case find (isHit index) ((if \<not> HasPrefix ref ''/'' then [''/'' @ ref] else []) @ [TrimPrefix ref ''/'']) of
       Some k \<Rightarrow> getFromCache index k
     | None \<Rightarrow> getPageNew_last h index ref)"
  by (simp add: getPageNew_implicit_def try_eq last_hit)

lemma implicit_log_eq: "getPageNew_implicit_log h index ref log =
    (getPageNew_implicit h index ref,
     log @ upToFirstHit index ((if \<not> HasPrefix ref ''/'' then [''/'' @ ref] else []) @ [TrimPrefix ref ''/'']))"
  by (simp add: getPageNew_implicit_log_def getPageNew_implicit_def try_eq try_log_eq last_log_eq
      upToFirstHit_def)

lemma relative_eq: "getPageNew_relative h index context ref =
    (case find (isHit index)
       ((case context of Some c \<Rightarrow> [path_Join [''/'', Join (sections (h c)) ''/'', ref]] | None \<Rightarrow> [])
        @ (if \<not> HasPrefix ref ''/'' then [''/'' @ ref] else []) @ [TrimPrefix ref ''/'']) of
       Some k \<Rightarrow> getFromCache index k
     | None \<Rightarrow> getPageNew_last h index ref)"
  by (cases "context") (simp_all add: getPageNew_relative_def try_eq implicit_eq Let_def del: path_Join.simps)

lemma upToFirstHit_Cons:
  "upToFirstHit index (k # ks) = (if isHit index k then [k] else k # upToFirstHit index ks)"
  by (simp add: upToFirstHit_def split: option.splits)

lemma relative_log_eq: "getPageNew_relative_log h index context ref log =
    (getPageNew_relative h index context ref,
     log @ upToFirstHit index
       ((case context of Some c \<Rightarrow> [path_Join [''/'', Join (sections (h c)) ''/'', ref]] | None \<Rightarrow> [])
        @ (if \<not> HasPrefix ref ''/'' then [''/'' @ ref] else []) @ [TrimPrefix ref ''/'']))"
  by (cases "context")
     (simp_all add: getPageNew_relative_log_def getPageNew_relative_def try_eq try_log_eq
        implicit_log_eq Let_def upToFirstHit_Cons del: path_Join.simps)

lemma getPageNew_find: "getPageNew h index context ref =
    (case find (isHit index) (lookupOrder h context ref) of
       Some k \<Rightarrow> getFromCache index k
     | None \<Rightarrow> getPageNew_last h index ref)"
  by (simp add: getPageNew_def try_eq relative_eq lookupOrder_def del: path_Join.simps)

lemma getPageNew_log_eq: "getPageNew_log h index context ref log =
    (getPageNew h index context ref, log @ upToFirstHit index (lookupOrder h context ref))"
  by (simp add: getPageNew_log_def getPageNew_def try_eq try_log_eq relative_log_eq lookupOrder_def
      upToFirstHit_Cons del: path_Join.simps)


lemma getFromCache_None: "index k = None \<Longrightarrow> getFromCache index k = (None, None)"
  by (simp add: getFromCache_def pageIndex_Get_def)

lemma isHit_iff: "isHit index k \<longleftrightarrow> (\<exists>p. index k = Some p \<and> p \<noteq> ambiguityFlag)"
  by (auto simp: isHit_def getFromCache_def pageIndex_Get_def split: option.splits)

lemma TrimPrefix_in_lookupOrder: "TrimPrefix ref ''/'' \<in> set (lookupOrder h context ref)"
  by (simp add: lookupOrder_def)

text \<open>Claim C1, as the code has it. When the index holds none of the references that
  \<open>getPageNew\<close> looks up for the context and reference given, \<open>getPageNew\<close> returns the nil
  page and the nil error: a reference that matches nothing is reported by the absence of a
  page, not by an error.\<close>

theorem getPageNew_unmatched:
  assumes "\<forall>k \<in> set (lookupOrder h context ref). index k = None"
  shows "getPageNew h index context ref = (None, None)"
proof -
  have "\<forall>k \<in> set (lookupOrder h context ref). \<not> isHit index k"
    using assms by (simp add: isHit_iff)
  then have "find (isHit index) (lookupOrder h context ref) = None"
    by (simp add: find_None_iff)
  then have "getPageNew h index context ref = getPageNew_last h index ref"
    by (simp add: getPageNew_find)
  moreover have "getFromCache index (TrimPrefix ref ''/'') = (None, None)"
    using assms TrimPrefix_in_lookupOrder by (simp add: getFromCache_None)
  ultimately show ?thesis
    by (simp add: getPageNew_last_def Let_def)
qed

theorem getPageNew_unmatched_witness:
  "getPageNew (\<lambda>_. examplePage) Map.empty None ''/missing.md'' = (None, None)"
  using getPageNew_unmatched [of "\<lambda>_. examplePage" None "''/missing.md''" Map.empty]
  by simp

text \<open>On the empty index, resolving \<open>missing.md\<close> from a context page gives no page and no
  error, so no error message names the resolving page.\<close>

theorem getPageNew_unmatched_counterexample:
  "getPageNew (\<lambda>_. examplePage) Map.empty (Some (PageAddr 1)) ''missing.md'' = (None, None)"
  by (simp add: getPageNew_def getPageNew_relative_def getPageNew_implicit_def
      getPageNew_last_def getFromCache_None HasPrefix_def Let_def)

lemma add_same_key: "add ref q index ref =
   (case index ref of None \<Rightarrow> Some q
    | Some e \<Rightarrow> if e \<noteq> ambiguityFlag \<and> e \<noteq> q then Some ambiguityFlag else Some e)"
  by (simp add: add_def split: option.splits)

lemma add_other_key: "k \<noteq> ref \<Longrightarrow> add ref q index k = index k"
  by (simp add: add_def split: option.splits)

lemma add_keeps_flag: "index k = Some ambiguityFlag \<Longrightarrow> add ref q index k = Some ambiguityFlag"
  by (cases "k = ref") (simp_all add: add_same_key add_other_key)

lemma addAll_keeps_flag:
  "index k = Some ambiguityFlag \<Longrightarrow> addAll ins index k = Some ambiguityFlag"
  by (induction ins arbitrary: index) (auto simp: add_keeps_flag)

text \<open>Claim C2. A key bound to the ambiguity flag stays bound to it after any sequence of
  insertions; and inserting a page under a key bound to another page, not the flag, binds
  the key to the flag.\<close>

theorem ambiguity_monotone:
  "(index ref = Some ambiguityFlag \<longrightarrow> addAll ins index ref = Some ambiguityFlag)
   \<and> (index ref = Some p \<and> p \<noteq> ambiguityFlag \<and> q \<noteq> p
        \<longrightarrow> add ref q index ref = Some ambiguityFlag)"
  by (simp add: addAll_keeps_flag add_same_key)

theorem ambiguity_monotone_witness:
  "add ''a.md'' (PageAddr 2) [''a.md'' \<mapsto> PageAddr 1] ''a.md'' = Some ambiguityFlag
   \<and> addAll [(''a.md'', PageAddr 1), (''b.md'', PageAddr 3), (''a.md'', PageAddr 3)]
        (add ''a.md'' (PageAddr 2) [''a.md'' \<mapsto> PageAddr 1]) ''a.md'' = Some ambiguityFlag"
proof -
  have first: "add ''a.md'' (PageAddr 2) [''a.md'' \<mapsto> PageAddr 1] ''a.md'' = Some ambiguityFlag"
    using ambiguity_monotone [of "[''a.md'' \<mapsto> PageAddr 1]" "''a.md''" "[]" "PageAddr 1" "PageAddr 2"]
    by (simp add: ambiguityFlag_def)
  then show ?thesis
    using ambiguity_monotone [of "add ''a.md'' (PageAddr 2) [''a.md'' \<mapsto> PageAddr 1]" "''a.md''"
        "[(''a.md'', PageAddr 1), (''b.md'', PageAddr 3), (''a.md'', PageAddr 3)]"]
    by blast
qed

lemma add_settled:
  "index ref = Some p \<or> index ref = Some ambiguityFlag \<Longrightarrow> add ref p index = index"
  by (auto simp: add_def)

lemma add_after_add: "add ref p index ref = Some p \<or> add ref p index ref = Some ambiguityFlag"
  by (auto simp: add_same_key split: option.splits)

lemma add_keeps_settled:
  "index ref = Some p \<or> index ref = Some ambiguityFlag \<Longrightarrow>
     add k q index ref = Some p \<or> add k q index ref = Some ambiguityFlag"
  by (cases "k = ref") (auto simp: add_same_key add_other_key)

lemma addAll_keeps_settled:
  "index ref = Some p \<or> index ref = Some ambiguityFlag \<Longrightarrow>
     addAll ins index ref = Some p \<or> addAll ins index ref = Some ambiguityFlag"
proof (induction ins arbitrary: index)
  case Nil
  then show ?case by simp
next
  case (Cons a ins)
  obtain k q where a: "a = (k, q)" by (cases a)
  show ?case
    using Cons.IH [of "add k q index"] add_keeps_settled [of index ref p k q] Cons.prems
    by (simp add: a)
qed

lemma addAll_settles:
  "(ref, p) \<in> set ins \<Longrightarrow>
     addAll ins index ref = Some p \<or> addAll ins index ref = Some ambiguityFlag"
proof (induction ins arbitrary: index)
  case Nil
  then show ?case by simp
next
  case (Cons a ins)
  obtain k q where a: "a = (k, q)" by (cases a)
  show ?case
  proof (cases "a = (ref, p)")
    case True
    then show ?thesis
      using addAll_keeps_settled [of "add ref p index" ref p ins] add_after_add [of ref p index]
      by simp
  next
    case False
    then have "(ref, p) \<in> set ins" using Cons.prems by simp
    then show ?thesis
      using Cons.IH [of "add k q index"] by (simp add: a)
  qed
qed

text \<open>Claim C8. Inserting a pair of key and page a second time leaves the index as it is,
  right after the first insertion and also after any sequence of insertions that holds the
  pair.\<close>

theorem add_idempotent:
  "add ref p (add ref p index) = add ref p index
   \<and> ((ref, p) \<in> set ins \<longrightarrow> add ref p (addAll ins index) = addAll ins index)"
  using add_settled [of "add ref p index" ref p] add_after_add [of ref p index]
    add_settled [of "addAll ins index" ref p] addAll_settles [of ref p ins index]
  by blast

theorem add_idempotent_witness:
  "add ''a.md'' (PageAddr 1)
     (addAll [(''a.md'', PageAddr 1), (''b.md'', PageAddr 2)] Map.empty)
   = addAll [(''a.md'', PageAddr 1), (''b.md'', PageAddr 2)] Map.empty"
  using add_idempotent [of "''a.md''" "PageAddr 1" Map.empty
      "[(''a.md'', PageAddr 1), (''b.md'', PageAddr 2)]"]
  by simp

text \<open>Claim C3. \<open>getPageNew\<close> looks references up in the order of \<^const>\<open>lookupOrder\<close>,
  stops at the first lookup that yields a non-nil page without error and returns that
  page; when no lookup does, the outcome is that of the last lookup.\<close>

theorem getPageNew_lookup_order:
  "getPageNew_log h index context ref [] =
     (getPageNew h index context ref, upToFirstHit index (lookupOrder h context ref))
   \<and> getPageNew h index context ref =
       (case find (isHit index) (lookupOrder h context ref) of
          Some k \<Rightarrow> (index k, None)
        | None \<Rightarrow> getPageNew_last h index ref)"
proof -
  have hit: "getFromCache index k = (index k, None)" if "isHit index k" for k
    using that by (auto simp: isHit_def getFromCache_def pageIndex_Get_def split: option.splits)
  show ?thesis
  proof (cases "find (isHit index) (lookupOrder h context ref)")
    case None
    then show ?thesis by (simp add: getPageNew_log_eq getPageNew_find)
  next
    case (Some k)
    then have "isHit index k" by (auto simp: find_Some_iff)
    then show ?thesis using Some hit by (simp add: getPageNew_log_eq getPageNew_find)
  qed
qed

theorem getPageNew_lookup_order_witness:
  "getPageNew_log (\<lambda>_. examplePage) exampleIndex (Some (PageAddr 1)) ''bar.md'' [] =
     ((Some (PageAddr 3), None), [''/blog/foo/bar.md''])
   \<and> getPageNew_log (\<lambda>_. examplePage) exampleIndex None ''bar.md'' [] =
     ((Some (PageAddr 2), None), [''/bar.md''])
   \<and> getPageNew_log (\<lambda>_. examplePage) exampleIndex None ''/baz.md'' [] =
     ((None, None), [''/baz.md'', ''baz.md''])"
  using getPageNew_lookup_order [of "\<lambda>_. examplePage" exampleIndex "Some (PageAddr 1)" "''bar.md''"]
    getPageNew_lookup_order [of "\<lambda>_. examplePage" exampleIndex None "''bar.md''"]
    getPageNew_lookup_order [of "\<lambda>_. examplePage" exampleIndex None "''/baz.md''"]
  by (simp add: lookupOrder_def upToFirstHit_def isHit_iff exampleIndex_def examplePage_def
      HasPrefix_def TrimPrefix_def Clean_def ambiguityFlag_def getPageNew_last_def
      getFromCache_def pageIndex_Get_def Let_def)

section \<open>Properties of the layout handler\<close>

lemma placeNonInternal_eq:
  "placeNonInternal acc layouts = acc @ filter (\<lambda>t. \<not> HasPrefix t ''_internal/'') layouts"
  by (induction layouts arbitrary: acc) simp_all

lemma placeTheme_eq:
  "placeTheme acc layouts =
     acc @ map (\<lambda>t. ''theme/'' @ t) (filter (\<lambda>t. \<not> HasPrefix t ''_internal/'') layouts)"
  by (induction layouts arbitrary: acc) simp_all

lemma placeInternal_eq:
  "placeInternal acc layouts = acc @ filter (\<lambda>t. HasPrefix t ''_internal/'') layouts"
  by (induction layouts arbitrary: acc) simp_all

text \<open>Claim C4. With a theme, \<open>For\<close> returns the candidates it returns without one in three
  bands: those not prefixed \<open>_internal/\<close> in their order, the same candidates each prefixed
  \<open>theme/\<close> in the same order, then those prefixed \<open>_internal/\<close> in their order and
  without the theme prefix.\<close>

theorem For_theme_bands:
  assumes "hasTheme l"
  shows "For l lid layoutOverride tp =
     (let layouts = For (l\<lparr>hasTheme := False\<rparr>) lid layoutOverride tp
      in filter (\<lambda>t. \<not> HasPrefix t ''_internal/'') layouts
         @ map (\<lambda>t. ''theme/'' @ t) (filter (\<lambda>t. \<not> HasPrefix t ''_internal/'') layouts)
         @ filter (\<lambda>t. HasPrefix t ''_internal/'') layouts)"
  using assms
  by (simp add: For_def Let_def placeNonInternal_eq placeTheme_eq placeInternal_eq)

text \<open>Claim C9. For a kind that is none of \<open>home\<close>, \<open>section\<close>, \<open>taxonomy\<close>,
  \<open>taxonomyTerm\<close> and \<open>page\<close>, \<open>For\<close> returns the empty list, with a theme or without.\<close>

theorem For_unknown_kind:
  assumes "PageKind lid \<notin> {''home'', ''section'', ''taxonomy'', ''taxonomyTerm'', ''page''}"
  shows "For l lid layoutOverride tp = []"
  using assms by (simp add: For_def Let_def)

lemma typeLayouts_eq:
  "i \<le> length t \<Longrightarrow>
   typeLayouts t layout name suffix i layouts =
     layouts @ concat (map (\<lambda>k. [ToLower (path_Join (take k t)) @ ''/'' @ layout @ ''.'' @ name @ ''.'' @ suffix,
                                  ToLower (path_Join (take k t)) @ ''/'' @ layout @ ''.'' @ suffix])
                          (rev [1..<Suc (length t - i)]))"
proof (induction t layout name suffix i layouts rule: typeLayouts.induct)
  case (1 t layout name suffix i layouts)
  show ?case
  proof (cases "i < length t")
    case True
    then have *: "Suc (length t - Suc i) = length t - i" by simp
    have "typeLayouts t layout name suffix i layouts =
        typeLayouts t layout name suffix (i + 1)
          ((layouts @ [ToLower (path_Join (take (length t - i) t)) @ ''/'' @ layout @ ''.'' @ name @ ''.'' @ suffix])
             @ [ToLower (path_Join (take (length t - i) t)) @ ''/'' @ layout @ ''.'' @ suffix])"
      using True by (simp add: typeLayouts.simps [of t layout name suffix i] Let_def)
    also have "\<dots> = ((layouts @ [ToLower (path_Join (take (length t - i) t)) @ ''/'' @ layout @ ''.'' @ name @ ''.'' @ suffix])
             @ [ToLower (path_Join (take (length t - i) t)) @ ''/'' @ layout @ ''.'' @ suffix])
           @ concat (map (\<lambda>k. [ToLower (path_Join (take k t)) @ ''/'' @ layout @ ''.'' @ name @ ''.'' @ suffix,
                                  ToLower (path_Join (take k t)) @ ''/'' @ layout @ ''.'' @ suffix])
                          (rev [1..<Suc (length t - (i + 1))]))"
      using True by (intro "1.IH") (auto simp: Let_def)
    also have "\<dots> = layouts @ concat (map (\<lambda>k. [ToLower (path_Join (take k t)) @ ''/'' @ layout @ ''.'' @ name @ ''.'' @ suffix,
                                  ToLower (path_Join (take k t)) @ ''/'' @ layout @ ''.'' @ suffix])
                          (rev [1..<Suc (length t - i)]))"
      using True * by (simp del: path_Join.simps)
    finally show ?thesis .
  next
    case False
    with "1.prems" have "i = length t" by simp
    then show ?thesis by (simp add: typeLayouts.simps [of t layout name suffix "length t"])
  qed
qed


lemma regularPageLayouts_eq:
  "regularPageLayouts types layout tp =
     (let layout' = (if layout = [] then ''single'' else layout);
          suffix = Suffix (MediaType tp);
          name = ToLower (Name tp);
          t = Split types (CHR ''/'')
      in (if types = [] then []
          else concat (map (\<lambda>k. [ToLower (path_Join (take k t)) @ ''/'' @ layout' @ ''.'' @ name @ ''.'' @ suffix,
                                    ToLower (path_Join (take k t)) @ ''/'' @ layout' @ ''.'' @ suffix])
                            (rev [1..<Suc (length t)])))
         @ [''_default/'' @ layout' @ ''.'' @ name @ ''.'' @ suffix,
            ''_default/'' @ layout' @ ''.'' @ suffix])"
  by (simp add: regularPageLayouts_def Let_def typeLayouts_eq del: path_Join.simps)

lemma For_example_cascade:
  "For \<lparr>hasTheme = False\<rparr>
       \<lparr>PageType = ''post/sub'', PageSection = sec, PageKind = ''page'', PageLayout = ''single''\<rparr>
       [] \<lparr>Name = ''html'', MediaType = \<lparr>Suffix = ''html''\<rparr>\<rparr>
     = [''post/sub/single.html.html'', ''post/sub/single.html'',
        ''post/single.html.html'', ''post/single.html'',
        ''_default/single.html.html'', ''_default/single.html'']"
  by (simp add: For_def regularPageLayouts_eq Let_def ToLower_def toLowerByte_def Clean_def
      upt_rec [of 1] upt_rec [of 2] upt_rec [of 3])

text \<open>Claim C5. For kind \<open>page\<close>, type path \<open>post/sub\<close>, layout \<open>single\<close>, suffix and format
  name \<open>html\<close> and no theme, \<open>For\<close> returns the six candidates of the specification;
  and \<open>regularPageLayouts\<close> walks the prefixes of the type path from the whole path down to
  its first element, with the format-name variant before the plain one at each level, and
  ends with the two \<open>_default\<close> candidates.\<close>

theorem page_cascade:
  "For \<lparr>hasTheme = False\<rparr>
       \<lparr>PageType = ''post/sub'', PageSection = sec, PageKind = ''page'', PageLayout = ''single''\<rparr>
       [] \<lparr>Name = ''html'', MediaType = \<lparr>Suffix = ''html''\<rparr>\<rparr>
     = [''post/sub/single.html.html'', ''post/sub/single.html'',
        ''post/single.html.html'', ''post/single.html'',
        ''_default/single.html.html'', ''_default/single.html'']
   \<and> regularPageLayouts types layout tp =
     (let layout' = (if layout = [] then ''single'' else layout);
          suffix = Suffix (MediaType tp);
          name = ToLower (Name tp);
          t = Split types (CHR ''/'')
      in (if types = [] then []
          else concat (map (\<lambda>k. [ToLower (path_Join (take k t)) @ ''/'' @ layout' @ ''.'' @ name @ ''.'' @ suffix,
                                    ToLower (path_Join (take k t)) @ ''/'' @ layout' @ ''.'' @ suffix])
                            (rev [1..<Suc (length t)])))
         @ [''_default/'' @ layout' @ ''.'' @ name @ ''.'' @ suffix,
            ''_default/'' @ layout' @ ''.'' @ suffix])"
  using For_example_cascade [of sec] regularPageLayouts_eq [of types layout tp] by blast

theorem For_theme_bands_witness:
  "For \<lparr>hasTheme = True\<rparr>
       \<lparr>PageType = ''_internal/Sub'', PageSection = ''post'', PageKind = ''page'', PageLayout = []\<rparr>
       ''mine'' \<lparr>Name = ''AMP'', MediaType = \<lparr>Suffix = ''html''\<rparr>\<rparr>
     = [''_default/mine.amp.html'', ''_default/mine.html'',
        ''theme/_default/mine.amp.html'', ''theme/_default/mine.html'',
        ''_internal/sub/mine.amp.html'', ''_internal/sub/mine.html'',
        ''_internal/mine.amp.html'', ''_internal/mine.html'']"
  using For_theme_bands [of "\<lparr>hasTheme = True\<rparr>"
      "\<lparr>PageType = ''_internal/Sub'', PageSection = ''post'', PageKind = ''page'', PageLayout = []\<rparr>"
      "''mine''" "\<lparr>Name = ''AMP'', MediaType = \<lparr>Suffix = ''html''\<rparr>\<rparr>"]
  by (simp add: For_def regularPageLayouts_eq Let_def ToLower_def toLowerByte_def Clean_def
      HasPrefix_def upt_rec [of 1] upt_rec [of 2] upt_rec [of 3])

theorem For_unknown_kind_witness:
  "For \<lparr>hasTheme = True\<rparr>
       \<lparr>PageType = ''post'', PageSection = ''post'', PageKind = ''404'', PageLayout = ''single''\<rparr>
       [] \<lparr>Name = ''HTML'', MediaType = \<lparr>Suffix = ''html''\<rparr>\<rparr> = []
   \<and> For \<lparr>hasTheme = False\<rparr>
       \<lparr>PageType = ''post'', PageSection = ''post'', PageKind = ''RSS'', PageLayout = ''single''\<rparr>
       [] \<lparr>Name = ''HTML'', MediaType = \<lparr>Suffix = ''html''\<rparr>\<rparr> = []"
  using For_unknown_kind [of
      "\<lparr>PageType = ''post'', PageSection = ''post'', PageKind = ''404'', PageLayout = ''single''\<rparr>"
      "\<lparr>hasTheme = True\<rparr>" "[]" "\<lparr>Name = ''HTML'', MediaType = \<lparr>Suffix = ''html''\<rparr>\<rparr>"]
    For_unknown_kind [of
      "\<lparr>PageType = ''post'', PageSection = ''post'', PageKind = ''RSS'', PageLayout = ''single''\<rparr>"
      "\<lparr>hasTheme = False\<rparr>" "[]" "\<lparr>Name = ''HTML'', MediaType = \<lparr>Suffix = ''html''\<rparr>\<rparr>"]
  by simp

section \<open>Properties of the template transformer\<close>

lemma resolve_example:
  "resolveVars [''$p'' \<mapsto> ''.Params''] [''$p''] 0 [] = Some (Some [''Params''])"
  by (simp add: resolveVars.simps [of _ _ 0] resolveVars.simps [of _ _ "Suc 0"]
      TrimPrefix_def HasPrefix_def)

lemma resolve_example2:
  "resolveVars d [''Params''] 0 [] = Some (Some [''Params''])"
  by (simp add: resolveVars.simps [of _ _ 0] resolveVars.simps [of _ _ "Suc 0"])


lemma lowerFrom_eq:
  "i \<le> length idents \<Longrightarrow> lowerFrom idents i = take i idents @ map ToLower (drop i idents)"
proof (induction idents i rule: lowerFrom.induct)
  case (1 idents i)
  show ?case
  proof (cases "i < length idents")
    case True
    have "lowerFrom idents i = lowerFrom (idents[i := ToLower (idents ! i)]) (i + 1)"
      using True by (simp add: lowerFrom.simps [of idents i])
    also have "\<dots> = take (i + 1) (idents[i := ToLower (idents ! i)])
                     @ map ToLower (drop (i + 1) (idents[i := ToLower (idents ! i)]))"
      using True by (intro "1.IH") simp_all
    also have "\<dots> = take i idents @ map ToLower (drop i idents)"
      using True by (simp add: take_Suc_conv_app_nth Cons_nth_drop_Suc [symmetric])
    finally show ?thesis .
  next
    case False
    with "1.prems" show ?thesis by (simp add: lowerFrom.simps [of idents "length idents"])
  qed
qed

lemma firstRealIdent_eq:
  "firstRealIdent idents words i =
     (if \<forall>x \<in> set idents. x = [] \<or> hd x = CHR ''$'' \<or> x \<in> set words then - 1
      else i + int (length (takeWhile (\<lambda>x. x = [] \<or> hd x = CHR ''$'' \<or> x \<in> set words) idents)))"
  by (induction idents words i rule: firstRealIdent.induct) (auto simp: Let_def)

lemma wordsMatch_take: "length words \<le> length slice \<Longrightarrow> wordsMatch slice words = (take (length words) slice = words)"
  by (induction slice words rule: wordsMatch.induct) auto

lemma sliceStartsWith_take: "sliceStartsWith slice words = (length words \<le> length slice \<and> take (length words) slice = words)"
  by (auto simp: sliceStartsWith_def wordsMatch_take)

lemma sliceStartsWith_both:
  assumes "sliceStartsWith r p" "sliceStartsWith r q" "length p \<le> length q"
  shows "take (length p) q = p"
proof -
  have "take (length p) q = take (length p) (take (length q) r)"
    using assms(2) by (simp add: sliceStartsWith_take)
  also have "\<dots> = take (length p) r"
    using assms(3) by (simp add: min_def)
  also have "\<dots> = p"
    using assms(1) by (simp add: sliceStartsWith_take)
  finally show ?thesis .
qed

lemma paramsPaths_no_prefix:
  "p \<in> set paramsPaths \<Longrightarrow> q \<in> set paramsPaths \<Longrightarrow> take (length p) q = p \<Longrightarrow> p = q"
  by (auto simp: paramsPaths_def)

lemma paramsPaths_exclusive:
  assumes "p \<in> set paramsPaths" "q \<in> set paramsPaths"
    and "sliceStartsWith r p" "sliceStartsWith r q"
  shows "p = q"
proof (cases "length p \<le> length q")
  case True
  then show ?thesis
    using sliceStartsWith_both [OF assms(3) assms(4)] paramsPaths_no_prefix [OF assms(1) assms(2)]
    by simp
next
  case False
  then have "q = p"
    using sliceStartsWith_both [OF assms(4) assms(3)] paramsPaths_no_prefix [OF assms(2) assms(1)]
    by simp
  then show ?thesis by simp
qed

lemma firstParamsPath_eq:
  assumes "\<forall>q \<in> set paths. q \<noteq> p \<longrightarrow> \<not> sliceStartsWith r q"
  shows "firstParamsPath r idents paths =
     (if p \<in> set paths then indexOfFirstRealIdentAfterWords r idents p else - 1)"
  using assms
proof (induction paths)
  case Nil
  then show ?case by simp
next
  case (Cons q paths)
  show ?case
  proof (cases "q = p")
    case True
    then show ?thesis using Cons by (auto simp: Let_def)
  next
    case False
    then have "indexOfFirstRealIdentAfterWords r idents q = - 1"
      using Cons.prems by (simp add: indexOfFirstRealIdentAfterWords_def)
    then show ?thesis using Cons False by (simp add: Let_def)
  qed
qed


text \<open>What \<open>updateIdentsIfNeeded\<close> does when the loop of \<open>indexOfReplacementStart\<close> ends with
  the path \<open>replaced\<close> and that path, followed by the other identifiers, starts with one of
  the parameter paths: the identifiers are lower-cased from the first one on that is not
  empty, not a variable and not a word of that path.\<close>

lemma updateIdentsIfNeeded_eq:
  assumes ne: "idents \<noteq> []"
    and res: "resolveVars d (Split (hd idents) (CHR ''.'')) 0 [] = Some (Some replaced)"
    and path: "paramPath \<in> set paramsPaths"
    and starts: "sliceStartsWith (replaced @ tl idents) paramPath"
  shows "updateIdentsIfNeeded d idents =
     Some (takeWhile (\<lambda>x. x = [] \<or> hd x = CHR ''$'' \<or> x \<in> set paramPath) idents
           @ map ToLower (dropWhile (\<lambda>x. x = [] \<or> hd x = CHR ''$'' \<or> x \<in> set paramPath) idents))"
proof -
  let ?skip = "\<lambda>x. x = [] \<or> hd x = CHR ''$'' \<or> x \<in> set paramPath"
  let ?r = "replaced @ tl idents"
  have others: "\<forall>q \<in> set paramsPaths. q \<noteq> paramPath \<longrightarrow> \<not> sliceStartsWith ?r q"
    using paramsPaths_exclusive [OF _ path _ starts] by blast
  have idx: "indexOfReplacementStart d idents = Some (firstRealIdent idents paramPath 0)"
    using ne res path starts firstParamsPath_eq [OF others, of idents]
    by (simp add: indexOfReplacementStart_def indexOfFirstRealIdentAfterWords_def)
  show ?thesis
  proof (cases "\<forall>x \<in> set idents. ?skip x")
    case True
    then have m1: "firstRealIdent idents paramPath 0 = - 1"
      by (simp add: firstRealIdent_eq)
    have tw: "takeWhile ?skip idents = idents"
      using True by simp
    have dw: "dropWhile ?skip idents = []"
      using True by simp
    show ?thesis
      unfolding tw dw using idx m1 by (simp add: updateIdentsIfNeeded_def)
  next
    case False
    let ?k = "length (takeWhile ?skip idents)"
    have k: "firstRealIdent idents paramPath 0 = int ?k"
      using False by (simp add: firstRealIdent_eq)
    have "?k \<le> length idents" by (rule length_takeWhile_le)
    then have "lowerFrom idents ?k = take ?k idents @ map ToLower (drop ?k idents)"
      by (rule lowerFrom_eq)
    also have "\<dots> = takeWhile ?skip idents @ map ToLower (dropWhile ?skip idents)"
      by (simp add: takeWhile_eq_take [symmetric] dropWhile_eq_drop [symmetric])
    finally show ?thesis
      using idx k by (simp add: updateIdentsIfNeeded_def)
  qed
qed

text \<open>The template \<open>{{ $p := .Params }}{{ $p.MyKey }}\<close>: the transformer rewrites \<open>MyKey\<close>
  to \<open>mykey\<close> and leaves \<open>$p\<close> and \<open>Params\<close> as they are, with any bound of four or more.\<close>

lemma example_transformed:
  "applyTemplateTransformers (4 + k) [''main'' \<mapsto> exampleTemplate] ''main''
     = Some (Inr [''main'' \<mapsto> exampleTemplate_lowered])"
proof -
  have fuel: "4 + k = Suc (Suc (Suc (Suc k)))" by simp
  have p: "updateIdentsIfNeeded d [''Params''] = Some [''Params'']" for d
    by (simp add: updateIdentsIfNeeded_def indexOfReplacementStart_def resolve_example2
        paramsPaths_def indexOfFirstRealIdentAfterWords_def sliceStartsWith_def)
  have v: "updateIdentsIfNeeded [''$p'' \<mapsto> ''.Params''] [''$p'', ''MyKey''] = Some [''$p'', ''mykey'']"
    by (simp add: updateIdentsIfNeeded_def indexOfReplacementStart_def resolve_example
        paramsPaths_def indexOfFirstRealIdentAfterWords_def sliceStartsWith_def
        lowerFrom_eq ToLower_def toLowerByte_def)
  show ?thesis
    unfolding fuel
    by (simp add: applyTemplateTransformers_def exampleTemplate_def exampleTemplate_lowered_def
        p v)
qed

lemma chain_resolveVars:
  "resolveVars chainDecl [''$a''] 0 [] = Some (Some [''X'', ''Params'', ''Y''])"
  by code_simp

lemma chain_spec: "spec_resolvedPath 4 chainDecl [''$a'', ''Foo''] = Some (Some [''Params'', ''Y'', ''X'', ''Foo''])"
  by code_simp

lemma chain_update: "updateIdentsIfNeeded chainDecl [''$a'', ''Foo''] = Some [''$a'', ''Foo'']"
  by code_simp

lemma chain_update_c:
  "updateIdentsIfNeeded [''$c'' \<mapsto> ''.Params'', ''$b'' \<mapsto> ''$c.Y''] [''$c'', ''Y'']
     = Some [''$c'', ''y'']"
  by code_simp

lemma chain_update_b:
  "updateIdentsIfNeeded [''$c'' \<mapsto> ''.Params'', ''$b'' \<mapsto> ''$c.Y'', ''$a'' \<mapsto> ''$b.X'']
     [''$b'', ''X''] = Some [''$b'', ''x'']"
  by code_simp

lemma chain_update_a:
  "updateIdentsIfNeeded [''$c'' \<mapsto> ''.Params'', ''$b'' \<mapsto> ''$c.Y'', ''$a'' \<mapsto> ''$b.X'']
     [''$a'', ''Foo''] = Some [''$a'', ''Foo'']"
  by code_simp

lemma update_Params: "updateIdentsIfNeeded d [''Params''] = Some [''Params'']"
  by (simp add: updateIdentsIfNeeded_def indexOfReplacementStart_def
      resolveVars.simps [of _ _ 0] resolveVars.simps [of _ _ "Suc 0"]
      paramsPaths_def indexOfFirstRealIdentAfterWords_def sliceStartsWith_def)

lemma chain_transformed:
  "applyTemplateTransformers (4 + k) [''main'' \<mapsto> chainTemplate] ''main''
     = Some (Inr [''main'' \<mapsto> chainTemplate_transformed])"
proof -
  have fuel: "4 + k = Suc (Suc (Suc (Suc k)))" by simp
  show ?thesis
    unfolding fuel
    by (simp add: applyTemplateTransformers_def chainTemplate_def chainTemplate_transformed_def
        update_Params chain_update_c chain_update_b chain_update_a)
qed

text \<open>Claim C6, where the code departs from it. In the template
  \<open>{{ $c := .Params }}{{ $b := $c.Y }}{{ $a := $b.X }}{{ $a.Foo }}\<close> the identifier \<open>$a.Foo\<close>
  resolves through its aliases to \<open>Params.Y.X.Foo\<close>, which starts with the parameter path
  \<open>Params\<close>; the loop of \<open>indexOfReplacementStart\<close> assembles \<open>X.Params.Y\<close> instead, since it
  puts the expansion of an alias found in an expansion behind the fields already queued,
  and \<open>Foo\<close> is left as it is, while \<open>$c.Y\<close> and \<open>$b.X\<close> are lower-cased.\<close>

theorem chain_alias_not_lowered:
  "spec_resolvedPath 4 chainDecl [''$a'', ''Foo''] = Some (Some [''Params'', ''Y'', ''X'', ''Foo''])
   \<and> sliceStartsWith [''Params'', ''Y'', ''X'', ''Foo''] [''Params'']
   \<and> [''Params''] \<in> set paramsPaths
   \<and> resolveVars chainDecl [''$a''] 0 [] = Some (Some [''X'', ''Params'', ''Y''])
   \<and> updateIdentsIfNeeded chainDecl [''$a'', ''Foo''] = Some [''$a'', ''Foo'']
   \<and> applyTemplateTransformers (4 + k) [''main'' \<mapsto> chainTemplate] ''main''
       = Some (Inr [''main'' \<mapsto> chainTemplate_transformed])"
  using chain_spec chain_resolveVars chain_update chain_transformed [of k]
  by (simp add: sliceStartsWith_def paramsPaths_def)

section \<open>Properties of the site build\<close>

lemma setupPrevNext_empty: "Pages st = [] \<Longrightarrow> Pages (setupPrevNext st) = []"
  by (simp add: setupPrevNext_def)

lemma setupPrevNext_other:
  "events (setupPrevNext st) = events st" "ContentDir (setupPrevNext st) = ContentDir st"
  by (simp_all add: setupPrevNext_def)

lemma materialized_fields:
  assumes "layoutDirExists w" "contentDirExists w"
  shows "events (materialized w st) = events st @ [TimerStep ''initialize & template prep'']"
    and "ContentDir (materialized w st) = ContentDir st"
  using assms
  by (simp_all add: materialized_def CreatePages_def timerStep_def prepTemplates_def
      initialize_def checkDirectories_def)

lemma Process_materialized:
  assumes "layoutDirExists w" "contentDirExists w"
  shows "Process w st =
     (case BuildSiteMeta w (timerStep ''import pages'' (setupPrevNext (materialized w st))) of
        (Some err, st7) \<Rightarrow> (Some err, st7)
      | (None, st7) \<Rightarrow> (None, timerStep ''build indexes'' st7))"
  using assms
  by (simp add: Process_def materialized_def initialize_def checkDirectories_def Let_def)

lemma BuildSiteMeta_no_pages:
  assumes "Pages st = []"
  shows "fst (BuildSiteMeta w st) = Some (NoPagesFound (ContentDir st))"
    and "events (snd (BuildSiteMeta w st)) = events st"
  using assms by (simp_all add: BuildSiteMeta_def Let_def)

text \<open>Claim C7. When both directories exist and the site has no page after its pages have
  been made, \<open>BuildSiteMeta\<close> returns the error that no pages were found, \<open>Build\<close> returns
  that error, and the build has logged the two timer steps of \<open>Process\<close> before it and
  nothing else: no template was executed, no rendering step was run, no file written.\<close>

theorem no_pages_build_fails:
  assumes dirs: "layoutDirExists w" "contentDirExists w"
    and none: "Pages (materialized w st) = []"
  shows "fst (BuildSiteMeta w (timerStep ''import pages'' (setupPrevNext (materialized w st))))
           = Some (NoPagesFound (ContentDir st))
       \<and> fst (Build w st) = Some (NoPagesFound (ContentDir st))
       \<and> events (snd (Build w st)) =
           events st @ [TimerStep ''initialize & template prep'', TimerStep ''import pages'']"
proof -
  let ?st6 = "timerStep ''import pages'' (setupPrevNext (materialized w st))"
  have p: "Pages ?st6 = []"
    using none by (simp add: timerStep_def setupPrevNext_empty)
  have c: "ContentDir ?st6 = ContentDir st"
    using dirs by (simp add: timerStep_def setupPrevNext_other materialized_fields)
  have e: "events ?st6 = events st @ [TimerStep ''initialize & template prep'', TimerStep ''import pages'']"
    using dirs by (simp add: timerStep_def setupPrevNext_other materialized_fields)
  have m: "fst (BuildSiteMeta w ?st6) = Some (NoPagesFound (ContentDir st))"
    using BuildSiteMeta_no_pages(1) [OF p, of w] c by simp
  have m': "events (snd (BuildSiteMeta w ?st6)) = events ?st6"
    using BuildSiteMeta_no_pages(2) [OF p, of w] by simp
  obtain st7 where b: "BuildSiteMeta w ?st6 = (Some (NoPagesFound (ContentDir st)), st7)"
    using m by (cases "BuildSiteMeta w ?st6") auto
  have "Process w st = (Some (NoPagesFound (ContentDir st)), st7)"
    using Process_materialized [OF dirs, of st] b by simp
  then have "Build w st = (Some (NoPagesFound (ContentDir st)), st7)"
    by (simp add: Build_def)
  then show ?thesis
    using m m' e b by simp
qed

theorem no_pages_build_fails_witness:
  "fst (Build exampleWorld exampleSite) = Some (NoPagesFound ''content'')
   \<and> events (snd (Build exampleWorld exampleSite)) =
       [TimerStep ''initialize & template prep'', TimerStep ''import pages'']"
proof -
  have "Pages (materialized exampleWorld exampleSite) = []"
    by (simp add: materialized_def CreatePages_def timerStep_def prepTemplates_def
        initialize_def checkDirectories_def exampleWorld_def exampleSite_def exampleSitePage_def)
  then show ?thesis
    using no_pages_build_fails [of exampleWorld exampleSite]
    by (simp add: exampleWorld_def exampleSite_def)
qed

text \<open>Claim C10. \<open>RenderHomePage\<close> on a site with pages first executes \<open>index.html\<close> on the
  node of the home page, whose \<open>Pages\<close> are the first nine pages of the site: all of them
  when there are fewer than nine, exactly nine otherwise.\<close>

theorem home_page_pages:
  assumes "Pages st \<noteq> []"
  shows "events (snd (RenderHomePage w st)) ! length (events st)
           = Executed ''index.html'' (NodeData (homePageNode st (hd (Pages st))))
       \<and> Data (homePageNode st (hd (Pages st))) ''Pages'' = Some (PagesValue (take 9 (Pages st)))
       \<and> length (take 9 (Pages st)) \<le> 9
       \<and> (if length (Pages st) < 9 then take 9 (Pages st) = Pages st
           else length (take 9 (Pages st)) = 9)"
proof -
  obtain first others where ps: "Pages st = first # others"
    using assms by (cases "Pages st") auto
  have ev: "events (snd (RenderHomePage w st)) ! length (events st)
           = Executed ''index.html'' (NodeData (homePageNode st first))"
    by (auto simp: RenderHomePage_def ps RenderThing_def WritePublic_def renderFeed_def Let_def
        nth_append split: prod.splits option.splits)
  have d: "Data (homePageNode st first) ''Pages'' = Some (PagesValue (take 9 (Pages st)))"
    by (simp add: homePageNode_def NewNode_def Let_def)
  show ?thesis using ev d by (simp add: ps)
qed

theorem home_page_pages_witness:
  "events (snd (RenderHomePage exampleWorld tenPageSite)) ! 0
     = Executed ''index.html'' (NodeData (homePageNode tenPageSite exampleSitePage))
   \<and> Data (homePageNode tenPageSite exampleSitePage) ''Pages''
       = Some (PagesValue (replicate 9 exampleSitePage))"
  using home_page_pages [of tenPageSite exampleWorld]
  by (simp add: tenPageSite_def exampleSite_def)

section \<open>More on the reference index\<close>

text \<open>The only error of \<open>getPageNew\<close> wraps the ambiguity of the last lookup, and it never
  names the context page: when the last lookup fails, the page it assigns to \<open>context\<close> is
  nil.\<close>

lemma getPageNew_error:
  assumes "snd (getPageNew h index context ref) = Some e"
  shows "e = ResolveFailed (AmbiguousRef (TrimPrefix ref ''/''))
       \<and> index (TrimPrefix ref ''/'') = Some ambiguityFlag"
proof -
  have hit: "snd (getFromCache index k) = None" if "isHit index k" for k
    using that by (auto simp: isHit_def split: prod.splits option.splits)
  have "snd (getPageNew_last h index ref) = Some e"
  proof (cases "find (isHit index) (lookupOrder h context ref)")
    case None
    then show ?thesis using assms by (simp add: getPageNew_find)
  next
    case (Some k)
    then have "isHit index k" by (auto simp: find_Some_iff)
    then show ?thesis using assms Some hit by (simp add: getPageNew_find)
  qed
  then show ?thesis
    using getFromCache_cases [of index "TrimPrefix ref ''/''"]
    by (auto simp: getPageNew_last_def Let_def)
qed

text \<open>Every reference that \<open>indexLoader\<close> inserts for a page is bound, in the index it
  builds, to that page or to the ambiguity flag.\<close>

lemma indexLoader_binding:
  assumes "(ref, p) \<in> set (concat (map (regularPageRefs h s) (AllRegularPages c @ headlessPages c))
                           @ concat (map (indexPageRefs h) (indexPages c)))"
  shows "indexLoader h c s ref = Some p \<or> indexLoader h c s ref = Some ambiguityFlag"
  unfolding indexLoader_def using assms by (rule addAll_settles)

end
